theory Spec2Isabelle
  imports Complex_Main
begin

section \<open>Tensors and the backend operations used by transformer.py\<close>

text \<open>
  Tensors are nested lists of reals, outermost axis first: a rank-2 tensor of shape
  (batch, seq) is a list of rows, a rank-3 tensor of shape (batch, seq, d_model) a list of
  matrices.  All arithmetic is exact (type \<open>real\<close>).  An elementwise operation of the
  backend on two tensors pairs the entries position by position; the backend refuses
  operands whose shapes disagree, and the theorems below carry the shapes as hypotheses.

  The backend computes in its float type, \<open>float32\<close>.  The model computes over the reals,
  the exact arithmetic the properties are stated in; \<open>float32\<close> below gives the rounding
  of a real number to \<open>binary32\<close> where a property depends on it.
\<close>

type_synonym tensor1 = "real list"
type_synonym tensor2 = "real list list"
type_synonym tensor3 = "real list list list"

datatype error = ValueError | TypeError | AttributeError | NotImplementedError

datatype tensor = Vec tensor1 | Mat tensor2 | Cube tensor3 | IntMat "int list list"

datatype pyobj = PyTensor tensor | PyList "pyobj list" | PyNone

definition shape2 :: "nat \<Rightarrow> nat \<Rightarrow> 'a list list \<Rightarrow> bool" where
  "shape2 B S x = (length x = B \<and> list_all (\<lambda>r. length r = S) x)"

definition shape3 :: "nat \<Rightarrow> nat \<Rightarrow> nat \<Rightarrow> 'a list list list \<Rightarrow> bool" where
  "shape3 B S D x = (length x = B \<and> list_all (shape2 S D) x)"

text \<open>\<open>K.int_shape\<close> of a rank-2 and of a rank-3 tensor.  A nested list with no rows
  does not record its inner dimensions; they read as 0 there.\<close>

definition int_shape2 :: "'a list list \<Rightarrow> nat \<times> nat" where
  "int_shape2 x = (length x, (case x of [] \<Rightarrow> 0 | r # _ \<Rightarrow> length r))"

definition int_shape3 :: "'a list list list \<Rightarrow> nat \<times> nat \<times> nat" where
  "int_shape3 x =
     (length x, (case x of [] \<Rightarrow> 0 | m # _ \<Rightarrow> length m),
      (case concat x of [] \<Rightarrow> 0 | v # _ \<Rightarrow> length v))"

definition ew2 :: "('a \<Rightarrow> 'b \<Rightarrow> 'c) \<Rightarrow> 'a list list \<Rightarrow> 'b list list \<Rightarrow> 'c list list" where
  "ew2 f x y = map2 (map2 f) x y"

definition ew3 ::
  "('a \<Rightarrow> 'b \<Rightarrow> 'c) \<Rightarrow> 'a list list list \<Rightarrow> 'b list list list \<Rightarrow> 'c list list list" where
  "ew3 f x y = map2 (ew2 f) x y"

definition K_add :: "tensor2 \<Rightarrow> tensor2 \<Rightarrow> tensor2" where
  "K_add x y = ew2 (+) x y"

definition K_sub :: "tensor2 \<Rightarrow> tensor2 \<Rightarrow> tensor2" where
  "K_sub x y = ew2 (-) x y"

definition K_mul :: "tensor2 \<Rightarrow> tensor2 \<Rightarrow> tensor2" where
  "K_mul x y = ew2 (*) x y"

definition K_add3 :: "tensor3 \<Rightarrow> tensor3 \<Rightarrow> tensor3" where
  "K_add3 x y = ew3 (+) x y"

definition K_greater :: "tensor2 \<Rightarrow> real \<Rightarrow> bool list list" where
  "K_greater x c = map (map (\<lambda>v. v > c)) x"

definition K_less_equal :: "tensor2 \<Rightarrow> real \<Rightarrow> bool list list" where
  "K_less_equal x c = map (map (\<lambda>v. v \<le> c)) x"

text \<open>\<open>K.switch\<close> on a boolean tensor of the operands' shape selects entry by entry.\<close>

definition K_switch :: "bool list list \<Rightarrow> tensor2 \<Rightarrow> tensor2 \<Rightarrow> tensor2" where
  "K_switch cond then_t else_t =
     ew2 (\<lambda>c (a, b). if c then a else b) cond (ew2 Pair then_t else_t)"

definition K_zeros_like :: "tensor2 \<Rightarrow> tensor2" where
  "K_zeros_like x = map (map (\<lambda>_. 0)) x"

definition K_ones_like :: "tensor2 \<Rightarrow> tensor2" where
  "K_ones_like x = map (map (\<lambda>_. 1)) x"

definition K_zeros_like3 :: "tensor3 \<Rightarrow> tensor3" where
  "K_zeros_like3 x = map (map (map (\<lambda>_. 0))) x"

definition K_sigmoid :: "tensor2 \<Rightarrow> tensor2" where
  "K_sigmoid x = map (map (\<lambda>v. 1 / (1 + exp (- v)))) x"



text \<open>\<open>K.mean(x, axis=1)\<close> of a rank-2 tensor: one mean per row.  The mean of an empty
  row is 0 here (division by zero in HOL); the backend yields NaN.\<close>

definition K_mean_axis1 :: "tensor2 \<Rightarrow> tensor1" where
  "K_mean_axis1 x = map (\<lambda>row. sum_list row / real (length row)) x"

definition ncols :: "'a list list \<Rightarrow> nat" where
  "ncols w = (case w of [] \<Rightarrow> 0 | r # _ \<Rightarrow> length r)"

definition column :: "'a list list \<Rightarrow> nat \<Rightarrow> 'a list" where
  "column w j = map (\<lambda>r. r ! j) w"

text \<open>\<open>K.dot\<close> of two matrices and \<open>K.bias_add\<close> along the last axis.\<close>

definition K_dot :: "tensor2 \<Rightarrow> tensor2 \<Rightarrow> tensor2" where
  "K_dot a w =
     map (\<lambda>row. map (\<lambda>j. sum_list (map2 (*) row (column w j))) [0..<ncols w]) a"

definition K_bias_add :: "tensor2 \<Rightarrow> tensor1 \<Rightarrow> tensor2" where
  "K_bias_add x b = map (\<lambda>row. map2 (+) row b) x"

text \<open>\<open>K.reshape(x, [-1, n])\<close>: the entries of \<open>x\<close> in row-major order, regrouped into
  rows of \<open>n\<close>.\<close>

function K_reshape :: "nat \<Rightarrow> 'a list \<Rightarrow> 'a list list" where
  "K_reshape n xs =
     (if n = 0 \<or> xs = [] then [] else take n xs # K_reshape n (drop n xs))"
  by pat_completeness auto
termination
  by (relation "measure (\<lambda>(n, xs). length xs)") auto

declare K_reshape.simps [simp del]

text \<open>\<open>tf.sequence_mask(lengths, maxlen)\<close> adds a last axis of size \<open>maxlen\<close>, for
  lengths of an integer or of a float type; \<open>K.squeeze(_, 1)\<close> removes axis 1, which must
  have size 1.\<close>

definition sequence_mask :: "int list list \<Rightarrow> nat \<Rightarrow> bool list list list" where
  "sequence_mask lengths maxlen =
     map (map (\<lambda>l. map (\<lambda>j. int j < l) [0..<maxlen])) lengths"

definition sequence_mask_float :: "real list list \<Rightarrow> nat \<Rightarrow> bool list list list" where
  "sequence_mask_float lengths maxlen =
     map (map (\<lambda>l. map (\<lambda>j. real j < l) [0..<maxlen])) lengths"

definition K_squeeze1 :: "'a list list list \<Rightarrow> error + 'a list list" where
  "K_squeeze1 m = (if list_all (\<lambda>r. length r = 1) m then Inr (concat m) else Inl ValueError)"

definition K_cast_float :: "bool list list \<Rightarrow> tensor2" where
  "K_cast_float m = map (map (\<lambda>b. if b then 1 else 0)) m"

definition K_cast_int :: "bool list list \<Rightarrow> int list list" where
  "K_cast_int m = map (map (\<lambda>b. if b then 1 else 0)) m"

definition K_sum_int :: "int list list \<Rightarrow> int" where
  "K_sum_int m = sum_list (concat m)"

text \<open>\<open>K.expand_dims(w, -1) * x\<close>: every feature of a position is scaled by the
  position's weight.\<close>

definition K_expand_mul :: "tensor2 \<Rightarrow> tensor3 \<Rightarrow> tensor3" where
  "K_expand_mul w x = ew2 (\<lambda>wv v. map (\<lambda>e. wv * e) v) w x"

section \<open>The GELU activation\<close>

definition gelu :: "real \<Rightarrow> real" where
  "gelu x = 0.5 * x * (1 + tanh (sqrt (2 / pi) * (x + 0.044715 * x ^ 3)))"

section \<open>LayerNormalization\<close>

text \<open>
  The layer holds its \<open>axis\<close> and the weights \<open>gain\<close> and \<open>bias\<close> that \<open>build\<close> creates with
  the size of the input's last axis.  \<open>call\<close> is modelled on rank-3 inputs, the tensors a
  \<open>TransformerBlock\<close> passes.  \<open>K.mean(x, axis, keepdims=True)\<close> averages the lane through
  each position along the axis; the result is used only in arithmetic with tensors of
  the input's shape, so the model holds it broadcast to that shape.  An axis outside
  \<open>-3 .. 2\<close> is refused by the backend.  The gain and the bias apply along the last axis.
\<close>

record LayerNormalization =
  axis :: int
  gain :: tensor1
  bias :: tensor1

definition normalize_axis :: "int \<Rightarrow> error + nat" where
  "normalize_axis ax = (if - 3 \<le> ax \<and> ax < 3 then Inr (nat (ax mod 3)) else Inl ValueError)"

definition lane :: "nat \<Rightarrow> tensor3 \<Rightarrow> nat \<Rightarrow> nat \<Rightarrow> nat \<Rightarrow> real list" where
  "lane ax x b s d =
     (if ax = 0 then map (\<lambda>m. m ! s ! d) x
      else if ax = 1 then map (\<lambda>v. v ! d) (x ! b)
      else x ! b ! s)"

definition tabulate3 :: "'a list list list \<Rightarrow> (nat \<Rightarrow> nat \<Rightarrow> nat \<Rightarrow> 'b) \<Rightarrow> 'b list list list" where
  "tabulate3 x f =
     map (\<lambda>b. map (\<lambda>s. map (\<lambda>d. f b s d) [0..<length (x ! b ! s)]) [0..<length (x ! b)])
       [0..<length x]"

definition K_mean_keepdims :: "nat \<Rightarrow> tensor3 \<Rightarrow> tensor3" where
  "K_mean_keepdims ax x =
     tabulate3 x (\<lambda>b s d. sum_list (lane ax x b s d) / real (length (lane ax x b s d)))"

definition K_square :: "tensor3 \<Rightarrow> tensor3" where
  "K_square x = map (map (map (\<lambda>v. v * v))) x"

definition LayerNormalization_call :: "LayerNormalization \<Rightarrow> tensor3 \<Rightarrow> error + tensor3" where
  "LayerNormalization_call layer inputs =
     (case normalize_axis (axis layer) of
        Inl e \<Rightarrow> Inl e
      | Inr ax \<Rightarrow>
          (let mean = K_mean_keepdims ax inputs;
               variance = K_mean_keepdims ax (K_square (ew3 (-) inputs mean));
               epsilon = 1 / 100000;
               normalized_inputs =
                 ew3 (\<lambda>c v. c / sqrt (v + epsilon)) (ew3 (-) inputs mean) variance;
               result =
                 map (map (\<lambda>v. map2 (+) (map2 (*) (gain layer) v) (bias layer))) normalized_inputs
           in Inr result))"

text \<open>The input with a constant added along the normalised axis: \<open>c\<close> gives the constant
  of a lane from the two coordinates the lane's positions share.\<close>

definition shift_along :: "nat \<Rightarrow> (nat \<Rightarrow> nat \<Rightarrow> real) \<Rightarrow> tensor3 \<Rightarrow> tensor3" where
  "shift_along ax c x =
     tabulate3 x (\<lambda>b s d.
        x ! b ! s ! d + (if ax = 0 then c s d else if ax = 1 then c b d else c b s))"

section \<open>TransformerTransition\<close>

text \<open>The activation is the function \<open>activations.get\<close> returns; the four weights are
  those \<open>build\<close> creates.  \<open>call\<close> flattens batch and sequence, applies the two dense
  steps and restores the last two dimensions of the input shape.\<close>

record TransformerTransition =
  t_activation :: "tensor2 \<Rightarrow> tensor2"
  t_size_multiplier :: nat
  weights1 :: tensor2
  biases1 :: tensor1
  weights2 :: tensor2
  biases2 :: tensor1

definition TransformerTransition_call :: "TransformerTransition \<Rightarrow> tensor3 \<Rightarrow> tensor3" where
  "TransformerTransition_call layer inputs =
     (case int_shape3 inputs of (bs, sequence_length, d_model) \<Rightarrow>
        (let step1 = t_activation layer
               (K_bias_add
                  (K_dot (K_reshape d_model (concat (concat inputs))) (weights1 layer))
                  (biases1 layer));
             step2 = K_bias_add (K_dot step1 (weights2 layer)) (biases2 layer);
             result = K_reshape sequence_length (K_reshape d_model (concat step2))
         in result))"

section \<open>TransformerBlock\<close>

text \<open>
  The layers of Keras and the attention layer are not part of transformer.py; the model
  takes them as given: the attention layer the constructor obtains from
  \<open>MultiHeadSelfAttention\<close>, the \<open>Dropout\<close> layer for a rate, the \<open>Conv1D\<close> layer for a
  number of filters, a kernel size and an activation, the function \<open>activations.get\<close> finds for an
  activation, the weights of the two normalisation layers and of the transition layer,
  and what \<open>len\<close> answers for a tensor.
\<close>

record keras_layers =
  MultiHeadSelfAttention :: "pyobj \<Rightarrow> pyobj \<Rightarrow> error + tensor3"
  Dropout :: "real \<Rightarrow> tensor3 \<Rightarrow> tensor3"
  Conv1D :: "nat \<Rightarrow> nat \<Rightarrow> string \<Rightarrow> tensor3 \<Rightarrow> tensor3"
  activations_get :: "string \<Rightarrow> tensor2 \<Rightarrow> tensor2"
  normalization1 :: LayerNormalization
  normalization2 :: LayerNormalization
  transition_weights :: "tensor2 \<times> tensor1 \<times> tensor2 \<times> tensor1"
  tensor_len :: "tensor \<Rightarrow> error + nat"

datatype transition = DotTransition TransformerTransition | ConvTransition "tensor3 \<Rightarrow> tensor3"

record TransformerBlock =
  size_multiplier :: nat
  name :: string
  activation :: string
  attention_layer :: "pyobj \<Rightarrow> pyobj \<Rightarrow> error + tensor3"
  norm1_layer :: LayerNormalization
  dropout_layer :: "tensor3 \<Rightarrow> tensor3"
  norm2_layer :: LayerNormalization
  transition_type :: string
  transition_layer :: "transition option"
  addition_layer :: "tensor3 \<Rightarrow> tensor3 \<Rightarrow> tensor3"
  vanilla_wiring :: bool

text \<open>\<open>__init__\<close>.  The arguments \<open>d_model\<close>, \<open>num_heads\<close>, \<open>attention_dropout\<close>,
  \<open>compression_window_size\<close>, \<open>use_masking\<close> and \<open>local_masking\<close> only reach the attention
  layer.\<close>

definition TransformerBlock_init ::
  "keras_layers \<Rightarrow> string \<Rightarrow> string \<Rightarrow> real \<Rightarrow> string \<Rightarrow> nat \<Rightarrow> bool \<Rightarrow> error + TransformerBlock" where
  "TransformerBlock_init keras nm trans_type residual_dropout act size_mult vanilla =
     (let dropout = (if residual_dropout > 0 then Dropout keras residual_dropout else (\<lambda>x. x))
      in if trans_type = ''dot'' then
           Inr \<lparr>size_multiplier = size_mult, name = nm, activation = act,
                attention_layer = MultiHeadSelfAttention keras,
                norm1_layer = normalization1 keras\<lparr>axis := - 1\<rparr>, dropout_layer = dropout,
                norm2_layer = normalization2 keras\<lparr>axis := - 1\<rparr>, transition_type = ''dot'',
                transition_layer = Some (DotTransition
                  (case transition_weights keras of (w1, b1, w2, b2) \<Rightarrow>
                     \<lparr>t_activation = activations_get keras act, t_size_multiplier = size_mult,
                      weights1 = w1, biases1 = b1, weights2 = w2, biases2 = b2\<rparr>)),
                addition_layer = K_add3, vanilla_wiring = vanilla\<rparr>
         else if trans_type = ''cnn'' then
           Inr \<lparr>size_multiplier = size_mult, name = nm, activation = act,
                attention_layer = MultiHeadSelfAttention keras,
                norm1_layer = normalization1 keras\<lparr>axis := - 1\<rparr>, dropout_layer = dropout,
                norm2_layer = normalization2 keras\<lparr>axis := - 1\<rparr>, transition_type = ''cnn'',
                transition_layer = None,
                addition_layer = K_add3, vanilla_wiring = vanilla\<rparr>
         else Inl NotImplementedError)"

text \<open>Lines 207-217 of \<open>__call__\<close>: a list of two objects is taken apart; anything else
  is asked for its \<open>len\<close> and accepted as the input when that is 3.\<close>

definition py_len :: "keras_layers \<Rightarrow> pyobj \<Rightarrow> error + nat" where
  "py_len keras obj =
     (case obj of
        PyList xs \<Rightarrow> Inr (length xs)
      | PyTensor t \<Rightarrow> tensor_len keras t
      | PyNone \<Rightarrow> Inl TypeError)"

definition block_input :: "keras_layers \<Rightarrow> pyobj \<Rightarrow> error + (pyobj \<times> pyobj)" where
  "block_input keras raw_input =
     (case raw_input of
        PyList [inp, lengths] \<Rightarrow> Inr (inp, lengths)
      | _ \<Rightarrow>
          (case py_len keras raw_input of
             Inl e \<Rightarrow> Inl e
           | Inr n \<Rightarrow> if n = 3 then Inr (raw_input, PyNone) else Inl ValueError))"

text \<open>What the sibling check of \<open>TransformerACT.call\<close> (line 333) accepts as a single
  input: a tensor of rank 3.\<close>

definition is_rank3_tensor :: "pyobj \<Rightarrow> bool" where
  "is_rank3_tensor obj = (case obj of PyTensor (Cube x) \<Rightarrow> True | _ \<Rightarrow> False)"

definition is_pair :: "pyobj \<Rightarrow> bool" where
  "is_pair obj = (case obj of PyList [a, b] \<Rightarrow> True | _ \<Rightarrow> False)"

text \<open>Lines 218-237, followed on rank-3 inputs, the tensors of the call contract.  A list
  that reaches the addition is refused by it with a \<open>ValueError\<close>.  What the layers of
  Keras make of a tensor of another rank is not followed: the model ends such a call with
  an error.\<close>

definition block_wiring ::
  "TransformerBlock \<Rightarrow> tensor3 \<Rightarrow> tensor3 \<Rightarrow> tensor3" where
  "block_wiring blk x y =
     (if vanilla_wiring blk then addition_layer blk x (dropout_layer blk y)
      else dropout_layer blk (addition_layer blk x y))"

definition TransformerBlock_call ::
  "keras_layers \<Rightarrow> TransformerBlock \<Rightarrow> pyobj \<Rightarrow> error + (TransformerBlock \<times> tensor3)" where
  "TransformerBlock_call keras blk raw_input =
     (case block_input keras raw_input of
        Inl e \<Rightarrow> Inl e
      | Inr (inp, lengths) \<Rightarrow>
          (case attention_layer blk inp lengths of
             Inl e \<Rightarrow> Inl e
           | Inr output \<Rightarrow>
               (let tlayer =
                      (if transition_layer blk = None \<and> transition_type blk = ''cnn''
                       then Some (ConvTransition
                              (Conv1D keras (snd (snd (int_shape3 output))) (size_multiplier blk)
                                 (activation blk)))
                       else transition_layer blk);
                    blk' = blk\<lparr>transition_layer := tlayer\<rparr>
                in case inp of
                     PyTensor (Cube x) \<Rightarrow>
                       (case LayerNormalization_call (norm1_layer blk) (block_wiring blk x output) of
                          Inl e \<Rightarrow> Inl e
                        | Inr norm1_output \<Rightarrow>
                            (case tlayer of
                               None \<Rightarrow> Inl TypeError
                             | Some tr \<Rightarrow>
                                 (let output2 =
                                        (case tr of
                                           DotTransition t \<Rightarrow> TransformerTransition_call t norm1_output
                                         | ConvTransition f \<Rightarrow> f norm1_output)
                                  in case LayerNormalization_call (norm2_layer blk)
                                            (block_wiring blk norm1_output output2) of
                                       Inl e \<Rightarrow> Inl e
                                     | Inr result \<Rightarrow> Inr (blk', result))))
                   | PyList xs \<Rightarrow> Inl ValueError
                   | _ \<Rightarrow> Inl TypeError)))"

text \<open>Constructing a block and calling it once.\<close>

definition TransformerBlock_run ::
  "keras_layers \<Rightarrow> string \<Rightarrow> string \<Rightarrow> real \<Rightarrow> string \<Rightarrow> nat \<Rightarrow> bool \<Rightarrow> pyobj \<Rightarrow> error + tensor3" where
  "TransformerBlock_run keras nm trans_type residual_dropout act size_mult vanilla raw_input =
     (case TransformerBlock_init keras nm trans_type residual_dropout act size_mult vanilla of
        Inl e \<Rightarrow> Inl e
      | Inr blk \<Rightarrow>
          (case TransformerBlock_call keras blk raw_input of
             Inl e \<Rightarrow> Inl e
           | Inr (blk', result) \<Rightarrow> Inr result))"

section \<open>TransformerACT\<close>

text \<open>
  The control tensors of a \<open>TransformerACT\<close> instance are all \<open>None\<close> after
  \<open>__init__\<close> and are all assigned together by \<open>initialize_control_tensors\<close>; nothing
  sets one of them back to \<open>None\<close>.  The instance therefore holds them as one optional
  record, and \<open>self.zeros_like_halting is None\<close> reads \<open>control a = None\<close>.
  The trainable weights \<open>halting_kernel\<close> (shape (d_model, 1)) and \<open>halting_biases\<close>
  (shape (1,)) are fields of the instance.  \<open>losses\<close> lists the arguments of the
  \<open>add_loss\<close> calls made so far.
\<close>

record control_tensors =
  zeros_like_halting :: tensor2
  ones_like_halting :: tensor2
  remainder :: tensor2
  active_steps :: tensor2
  halt_budget :: tensor2
  batch_size :: nat

record TransformerACT =
  halt_epsilon :: real
  time_penalty :: real
  return_step :: bool
  halting_kernel :: tensor2
  halting_biases :: tensor1
  ponder_cost :: "tensor1 option"
  weighted_output :: "tensor3 option"
  zeros_like_input :: "tensor3 option"
  control :: "control_tensors option"
  losses :: "tensor1 option list"

definition TransformerACT_init ::
  "real \<Rightarrow> real \<Rightarrow> bool \<Rightarrow> tensor2 \<Rightarrow> tensor1 \<Rightarrow> TransformerACT" where
  "TransformerACT_init eps penalty rs hk hb =
     \<lparr>halt_epsilon = eps, time_penalty = penalty, return_step = rs,
      halting_kernel = hk, halting_biases = hb,
      ponder_cost = None, weighted_output = None, zeros_like_input = None,
      control = None, losses = []\<rparr>"


definition initialize_control_tensors :: "TransformerACT \<Rightarrow> tensor2 \<Rightarrow> nat \<Rightarrow> control_tensors" where
  "initialize_control_tensors a halting bs =
     \<lparr>zeros_like_halting = K_zeros_like halting,
      ones_like_halting = K_ones_like halting,
      remainder = K_ones_like halting,
      active_steps = K_zeros_like halting,
      halt_budget = map (map (\<lambda>v. v - halt_epsilon a)) (K_ones_like halting),
      batch_size = bs\<rparr>"


text \<open>Lines 330-342 of \<open>call\<close>: the argument is a list of two objects (input and
  lengths) or a rank-3 tensor, anything else a \<open>ValueError\<close>.  The input's shape is then
  unpacked into three names: a tensor of another rank gives a \<open>ValueError\<close> there, and an
  object without a shape an \<open>AttributeError\<close>.\<close>

fun act_input :: "pyobj \<Rightarrow> error + (tensor3 \<times> pyobj)" where
  "act_input (PyList [PyTensor (Cube x), lengths]) = Inr (x, lengths)"
| "act_input (PyList [PyTensor _, _]) = Inl ValueError"
| "act_input (PyList [_, _]) = Inl AttributeError"
| "act_input (PyTensor (Cube x)) = Inr (x, PyNone)"
| "act_input _ = Inl ValueError"

text \<open>Lines 344-354: the sigmoid halting unit.\<close>

definition halting_unit :: "TransformerACT \<Rightarrow> tensor3 \<Rightarrow> tensor2" where
  "halting_unit a input =
     (case int_shape3 input of (bs, sequence_length, d_model) \<Rightarrow>
        K_sigmoid
          (K_reshape sequence_length
             (concat
                (K_bias_add
                   (K_dot (K_reshape d_model (concat (concat input))) (halting_kernel a))
                   (halting_biases a)))))"

text \<open>Lines 356-358: the control tensors this call works on.\<close>

definition control_for_call :: "TransformerACT \<Rightarrow> tensor2 \<Rightarrow> nat \<Rightarrow> control_tensors" where
  "control_for_call a halting bs =
     (case control a of
        None \<Rightarrow> initialize_control_tensors a halting bs
      | Some c \<Rightarrow>
          if batch_size c \<noteq> bs then initialize_control_tensors a halting bs else c)"

definition call_control :: "TransformerACT \<Rightarrow> tensor3 \<Rightarrow> control_tensors" where
  "call_control a input = control_for_call a (halting_unit a input) (fst (int_shape3 input))"

text \<open>Lines 360-377.\<close>

definition step_is_active :: "control_tensors \<Rightarrow> bool list list" where
  "step_is_active c = K_greater (halt_budget c) 0"

definition no_further_steps :: "control_tensors \<Rightarrow> tensor2 \<Rightarrow> bool list list" where
  "no_further_steps c halting = K_less_equal (K_sub (halt_budget c) halting) 0"

definition halting_prob :: "control_tensors \<Rightarrow> tensor2 \<Rightarrow> tensor2" where
  "halting_prob c halting =
     K_switch (step_is_active c)
       (K_switch (no_further_steps c halting) (remainder c) halting)
       (zeros_like_halting c)"

definition active_steps_incremented :: "control_tensors \<Rightarrow> tensor2" where
  "active_steps_incremented c =
     K_add (active_steps c)
       (K_switch (step_is_active c) (ones_like_halting c) (zeros_like_halting c))"

text \<open>Lines 417-423.  The lengths are a tensor of shape (batch, 1); an object that is no
  tensor is refused.\<close>

definition mask_length_if_provided :: "tensor2 \<Rightarrow> pyobj \<Rightarrow> error + tensor2" where
  "mask_length_if_provided input lengths =
     (case lengths of
        PyNone \<Rightarrow> Inr input
      | PyTensor (IntMat l) \<Rightarrow>
          (case K_squeeze1 (sequence_mask l (snd (int_shape2 input))) of
             Inl e \<Rightarrow> Inl e
           | Inr msk \<Rightarrow> Inr (K_mul input (K_cast_float msk)))
      | PyTensor (Mat l) \<Rightarrow>
          (case K_squeeze1 (sequence_mask_float l (snd (int_shape2 input))) of
             Inl e \<Rightarrow> Inl e
           | Inr msk \<Rightarrow> Inr (K_mul input (K_cast_float msk)))
      | _ \<Rightarrow> Inl TypeError)"

text \<open>Lines 383-384, 386-390 and 397-406.\<close>

definition ponder_cost_of :: "real \<Rightarrow> tensor2 \<Rightarrow> tensor2 \<Rightarrow> tensor1" where
  "ponder_cost_of penalty rem act = map (\<lambda>m. penalty * m) (K_mean_axis1 (K_add rem act))"

definition remainder_updated :: "control_tensors \<Rightarrow> tensor2 \<Rightarrow> tensor2 \<Rightarrow> tensor2" where
  "remainder_updated c halting rem = K_switch (no_further_steps c halting) rem (K_sub rem halting)"

definition zeros_like_input_for_call :: "TransformerACT \<Rightarrow> tensor3 \<Rightarrow> tensor3" where
  "zeros_like_input_for_call a input =
     (case zeros_like_input a of
        None \<Rightarrow> K_zeros_like3 input
      | Some z \<Rightarrow> if int_shape3 z \<noteq> int_shape3 input then K_zeros_like3 input else z)"

definition any_step_is_active :: "control_tensors \<Rightarrow> bool" where
  "any_step_is_active c = (K_sum_int (K_cast_int (step_is_active c)) > 0)"

definition step_weighted_output ::
  "control_tensors \<Rightarrow> tensor2 \<Rightarrow> tensor3 \<Rightarrow> tensor3 \<Rightarrow> tensor3" where
  "step_weighted_output c halting input zeros =
     (if any_step_is_active c then K_expand_mul (halting_prob c halting) input else zeros)"

text \<open>Lines 408-411: the running total starts again when there is none or its batch
  axis differs from the input's.\<close>

definition weighted_output_updated :: "TransformerACT \<Rightarrow> nat \<Rightarrow> tensor3 \<Rightarrow> tensor3" where
  "weighted_output_updated a bs swo =
     (case weighted_output a of
        None \<Rightarrow> swo
      | Some w \<Rightarrow> if length w \<noteq> bs then swo else K_add3 w swo)"

text \<open>\<open>TransformerACT.call\<close>: the new instance state and the returned list.\<close>

definition TransformerACT_call :: "TransformerACT \<Rightarrow> pyobj \<Rightarrow> error + (TransformerACT \<times> tensor list)" where
  "TransformerACT_call a raw_input =
     (case act_input raw_input of
        Inl e \<Rightarrow> Inl e
      | Inr (input, lengths) \<Rightarrow>
          (let halting = halting_unit a input;
               c = call_control a input
           in case mask_length_if_provided (remainder c) lengths of
                Inl e \<Rightarrow> Inl e
              | Inr rem \<Rightarrow>
                  (case mask_length_if_provided (active_steps_incremented c) lengths of
                     Inl e \<Rightarrow> Inl e
                   | Inr act \<Rightarrow>
                       (let pc = ponder_cost_of (time_penalty a) rem act;
                            c' = c\<lparr>remainder := remainder_updated c halting rem,
                                   active_steps := act,
                                   halt_budget := K_sub (halt_budget c) halting\<rparr>;
                            zeros = zeros_like_input_for_call a input;
                            wo = weighted_output_updated a (fst (int_shape3 input))
                                   (step_weighted_output c halting input zeros);
                            a' = a\<lparr>ponder_cost := Some pc, weighted_output := Some wo,
                                   zeros_like_input := Some zeros, control := Some c'\<rparr>
                        in Inr (a',
                                [Cube input, Cube wo, Vec pc] @
                                (if return_step a then [Mat act] else []))))))"


subsection \<open>Well-formed instances and calls\<close>

text \<open>
  The shapes the backend maintains: the control tensors have the shape (B, S) of the
  halting tensor they were created from, the helper tensors hold zeros and ones, and the
  halting weights have the shapes \<open>build\<close> gives them for inputs of feature size D.
\<close>

definition control_ok :: "nat \<Rightarrow> nat \<Rightarrow> control_tensors \<Rightarrow> bool" where
  "control_ok B S c =
     (zeros_like_halting c = replicate B (replicate S 0) \<and>
      ones_like_halting c = replicate B (replicate S 1) \<and>
      shape2 B S (remainder c) \<and> shape2 B S (active_steps c) \<and>
      shape2 B S (halt_budget c) \<and> batch_size c = B)"

definition weights_ok :: "nat \<Rightarrow> TransformerACT \<Rightarrow> bool" where
  "weights_ok D a = (0 < D \<and> shape2 D 1 (halting_kernel a) \<and> length (halting_biases a) = 1)"

definition zeros_ok :: "TransformerACT \<Rightarrow> bool" where
  "zeros_ok a =
     (case zeros_like_input a of
        None \<Rightarrow> True
      | Some z \<Rightarrow>
          (case int_shape3 z of (B, S, D) \<Rightarrow> z = replicate B (replicate S (replicate D 0))))"

text \<open>An instance that is fresh or has so far been called on inputs of shape (B, S, D).\<close>

definition act_ok :: "nat \<Rightarrow> nat \<Rightarrow> nat \<Rightarrow> TransformerACT \<Rightarrow> bool" where
  "act_ok B S D a =
     (0 < S \<and> weights_ok D a \<and> zeros_ok a \<and>
      (case control a of None \<Rightarrow> True | Some c \<Rightarrow> control_ok B S c))"


text \<open>A lengths argument for a batch of B sequences: absent, or an integer tensor of
  shape (B, 1).  A position is unmasked when no lengths are given or it lies below its
  sequence's length.\<close>

definition lengths_ok :: "nat \<Rightarrow> pyobj \<Rightarrow> bool" where
  "lengths_ok B lengths =
     (case lengths of
        PyNone \<Rightarrow> True
      | PyTensor (IntMat l) \<Rightarrow> shape2 B 1 l
      | _ \<Rightarrow> False)"

definition unmasked :: "pyobj \<Rightarrow> nat \<Rightarrow> nat \<Rightarrow> bool" where
  "unmasked lengths b t =
     (case lengths of
        PyTensor (IntMat l) \<Rightarrow> int t < l ! b ! 0
      | _ \<Rightarrow> True)"

definition call_arg_ok :: "nat \<Rightarrow> nat \<Rightarrow> nat \<Rightarrow> pyobj \<Rightarrow> bool" where
  "call_arg_ok B S D arg =
     (case act_input arg of
        Inl e \<Rightarrow> False
      | Inr (x, lengths) \<Rightarrow> shape3 B S D x \<and> lengths_ok B lengths)"

definition arg_unmasked :: "pyobj \<Rightarrow> nat \<Rightarrow> nat \<Rightarrow> bool" where
  "arg_unmasked arg b t =
     (case act_input arg of Inl e \<Rightarrow> False | Inr (x, lengths) \<Rightarrow> unmasked lengths b t)"

subsection \<open>Sequential calls\<close>

text \<open>
  The Universal Transformer calls one instance once per step.  The trace of a run
  records, for every call, the halt budget the call starts from, the output of the
  halting unit and the halting probabilities by which the call weights its input.
\<close>

record trace_entry =
  te_budget :: tensor2
  te_halting :: tensor2
  te_weight :: tensor2

definition call_entry :: "TransformerACT \<Rightarrow> tensor3 \<Rightarrow> trace_entry" where
  "call_entry a input =
     (let halting = halting_unit a input;
          c = call_control a input
      in \<lparr>te_budget = halt_budget c, te_halting = halting,
          te_weight = halting_prob c halting\<rparr>)"

fun ACT_trace :: "TransformerACT \<Rightarrow> pyobj list \<Rightarrow> error + trace_entry list" where
  "ACT_trace a [] = Inr []"
| "ACT_trace a (arg # args) =
     (case TransformerACT_call a arg of
        Inl e \<Rightarrow> Inl e
      | Inr (a', outs) \<Rightarrow>
          (case ACT_trace a' args of
             Inl e \<Rightarrow> Inl e
           | Inr tr \<Rightarrow>
               (case act_input arg of
                  Inl e \<Rightarrow> Inl e
                | Inr (input, lengths) \<Rightarrow> Inr (call_entry a input # tr))))"

definition exhausts_at :: "nat \<Rightarrow> nat \<Rightarrow> trace_entry \<Rightarrow> bool" where
  "exhausts_at b t e =
     (te_budget e ! b ! t > 0 \<and> te_budget e ! b ! t - te_halting e ! b ! t \<le> 0)"

definition weight_sum :: "nat \<Rightarrow> nat \<Rightarrow> trace_entry list \<Rightarrow> real" where
  "weight_sum b t tr = sum_list (map (\<lambda>e. te_weight e ! b ! t) tr)"

text \<open>The halt budget and the remainder of a position as the next call will read them: the
  initial values on a fresh instance, the stored ones afterwards.\<close>

definition current_budget :: "TransformerACT \<Rightarrow> nat \<Rightarrow> nat \<Rightarrow> real" where
  "current_budget a b t =
     (case control a of None \<Rightarrow> 1 - halt_epsilon a | Some c \<Rightarrow> halt_budget c ! b ! t)"

definition current_remainder :: "TransformerACT \<Rightarrow> nat \<Rightarrow> nat \<Rightarrow> real" where
  "current_remainder a b t =
     (case control a of None \<Rightarrow> 1 | Some c \<Rightarrow> remainder c ! b ! t)"

subsection \<open>A small instance\<close>

text \<open>An instance for inputs of feature size 1 whose halting unit has kernel 0 and bias
  0, so that every halting output is \<open>sigmoid 0 = 1/2\<close>, and a batch of one sequence of
  two positions.\<close>

definition act_example :: "real \<Rightarrow> TransformerACT" where
  "act_example eps = TransformerACT_init eps (1 / 100) False [[0]] [0]"

definition input_example :: tensor3 where
  "input_example = [[[1], [1]]]"

definition lengths_example :: pyobj where
  "lengths_example = PyTensor (IntMat [[1]])"

text \<open>A call on the input alone, and a call on the input with lengths that leave the
  second position as padding.\<close>

definition norm_example :: "int \<Rightarrow> LayerNormalization" where
  "norm_example ax = \<lparr>axis = ax, gain = [2, 3], bias = [1, 1]\<rparr>"

text \<open>Stand-ins for the layers of Keras: an attention layer that returns its input, a
  dropout that drops everything, a convolution and an activation that change nothing,
  and a backend whose tensors have no \<open>len\<close>.\<close>

definition keras_example :: keras_layers where
  "keras_example =
     \<lparr>MultiHeadSelfAttention =
        (\<lambda>inp lengths. case inp of PyTensor (Cube x) \<Rightarrow> Inr x | _ \<Rightarrow> Inl TypeError),
      Dropout = (\<lambda>rate x. K_zeros_like3 x),
      Conv1D = (\<lambda>filters kernel_size act x. x),
      activations_get = (\<lambda>nm x. x),
      normalization1 = \<lparr>axis = - 1, gain = [1], bias = [0]\<rparr>,
      normalization2 = \<lparr>axis = - 1, gain = [1], bias = [0]\<rparr>,
      transition_weights = ([[1]], [0], [[1]], [0]),
      tensor_len = (\<lambda>t. Inl TypeError)\<rparr>"


definition call_example :: pyobj where
  "call_example = PyTensor (Cube input_example)"

definition masked_call_example :: pyobj where
  "masked_call_example = PyList [PyTensor (Cube input_example), lengths_example]"

section \<open>Shapes and positions\<close>

lemma shape2_length: "shape2 B S x \<Longrightarrow> length x = B"
  by (simp add: shape2_def)

lemma shape2_nth: "shape2 B S x \<Longrightarrow> b < B \<Longrightarrow> length (x ! b) = S"
  by (simp add: shape2_def list_all_length)

lemma shape2_I: "length x = B \<Longrightarrow> (\<And>b. b < B \<Longrightarrow> length (x ! b) = S) \<Longrightarrow> shape2 B S x"
  by (simp add: shape2_def list_all_length)

lemma shape2_map: "shape2 B S x \<Longrightarrow> shape2 B S (map (map f) x)"
  by (simp add: shape2_def list_all_length)

lemma nth_map_map: "shape2 B S x \<Longrightarrow> b < B \<Longrightarrow> t < S \<Longrightarrow> map (map f) x ! b ! t = f (x ! b ! t)"
  by (simp add: shape2_def list_all_length)

lemma shape2_ew2: "shape2 B S x \<Longrightarrow> shape2 B S y \<Longrightarrow> shape2 B S (ew2 f x y)"
  by (simp add: shape2_def list_all_length ew2_def)

lemma nth_ew2:
  "shape2 B S x \<Longrightarrow> shape2 B S y \<Longrightarrow> b < B \<Longrightarrow> t < S \<Longrightarrow> ew2 f x y ! b ! t = f (x ! b ! t) (y ! b ! t)"
  by (simp add: shape2_def list_all_length ew2_def)

lemma shape2_K_switch:
  "shape2 B S c \<Longrightarrow> shape2 B S x \<Longrightarrow> shape2 B S y \<Longrightarrow> shape2 B S (K_switch c x y)"
  by (simp add: K_switch_def shape2_ew2)

lemma nth_K_switch:
  "shape2 B S c \<Longrightarrow> shape2 B S x \<Longrightarrow> shape2 B S y \<Longrightarrow> b < B \<Longrightarrow> t < S \<Longrightarrow>
   K_switch c x y ! b ! t = (if c ! b ! t then x ! b ! t else y ! b ! t)"
  by (simp add: K_switch_def shape2_ew2 nth_ew2)

lemma K_reshape_concat:
  "0 < n \<Longrightarrow> list_all (\<lambda>r. length r = n) rows \<Longrightarrow> K_reshape n (concat rows) = rows"
proof (induction rows)
  case Nil
  then show ?case by (simp add: K_reshape.simps)
next
  case (Cons r rows)
  then have "r \<noteq> []" by auto
  with Cons show ?case by (subst K_reshape.simps) simp
qed

lemma shape2_K_reshape:
  "0 < S \<Longrightarrow> length xs = B * S \<Longrightarrow> shape2 B S (K_reshape S xs)"
proof (induction B arbitrary: xs)
  case 0
  then show ?case by (simp add: K_reshape.simps shape2_def)
next
  case (Suc B)
  then have ne: "xs \<noteq> []" by auto
  have "length (drop S xs) = B * S" using Suc.prems by simp
  from Suc.IH [OF Suc.prems(1) this] have "shape2 B S (K_reshape S (drop S xs))" .
  moreover have "length (take S xs) = S" using Suc.prems by simp
  ultimately show ?case using ne Suc.prems(1)
    by (subst K_reshape.simps) (simp add: shape2_def)
qed

lemma concat_K_reshape: "0 < n \<Longrightarrow> concat (K_reshape n xs) = xs"
proof (induction n xs rule: K_reshape.induct)
  case (1 n xs)
  show ?case
  proof (cases "xs = []")
    case True
    then show ?thesis by (simp add: K_reshape.simps)
  next
    case False
    with 1 show ?thesis by (subst K_reshape.simps) simp
  qed
qed

lemma halting_unit_range:
  "r \<in> set (halting_unit a x) \<Longrightarrow> v \<in> set r \<Longrightarrow> 0 < v \<and> v < 1"
proof -
  have pos: "\<And>u::real. 0 < 1 / (1 + exp (- u)) \<and> 1 / (1 + exp (- u)) < 1"
  proof -
    fix u :: real
    have "0 < exp (- u)" by simp
    then show "0 < 1 / (1 + exp (- u)) \<and> 1 / (1 + exp (- u)) < 1"
      by (simp add: add_pos_pos)
  qed
  assume "r \<in> set (halting_unit a x)" "v \<in> set r"
  then obtain y where "r \<in> set (K_sigmoid y)"
    by (auto simp: halting_unit_def split: prod.splits)
  with \<open>v \<in> set r\<close> obtain u where "v = 1 / (1 + exp (- u))"
    by (auto simp: K_sigmoid_def)
  with pos show ?thesis by simp
qed

lemma shape3_length: "shape3 B S D x \<Longrightarrow> length x = B"
  by (simp add: shape3_def)

lemma shape3_nth: "shape3 B S D x \<Longrightarrow> b < B \<Longrightarrow> shape2 S D (x ! b)"
  by (simp add: shape3_def list_all_length)

lemma fst_int_shape3 [simp]: "fst (int_shape3 x) = length x"
  by (simp add: int_shape3_def)

lemma shape3_concat:
  "shape3 B S D x \<Longrightarrow> shape2 (B * S) D (concat x)"
proof (induction x arbitrary: B)
  case Nil
  then show ?case by (simp add: shape3_def shape2_def)
next
  case (Cons m x)
  then obtain B' where B: "B = Suc B'" and m: "shape2 S D m" and x: "shape3 B' S D x"
    by (cases B) (auto simp: shape3_def)
  from Cons.IH [OF x] m show ?case
    by (simp add: B shape2_def)
qed

lemma int_shape3_shape3:
  "shape3 B S D x \<Longrightarrow> 0 < B \<Longrightarrow> 0 < S \<Longrightarrow> int_shape3 x = (B, S, D)"
proof -
  assume sh: "shape3 B S D x" and B: "0 < B" and S: "0 < S"
  then obtain m x' where x: "x = m # x'" by (cases x) (auto simp: shape3_def)
  with sh have m: "shape2 S D m" by (simp add: shape3_def)
  with S obtain v m' where mm: "m = v # m'" by (cases m) (auto simp: shape2_def)
  with m have "length v = D" by (simp add: shape2_def)
  with x mm m sh show ?thesis by (simp add: int_shape3_def shape2_def shape3_def)
qed

lemma shape2_K_dot:
  "length a = N \<Longrightarrow> shape2 N (ncols w) (K_dot a w)"
  by (simp add: K_dot_def shape2_def list_all_length)

lemma ncols_shape2: "shape2 D n w \<Longrightarrow> 0 < D \<Longrightarrow> ncols w = n"
  by (cases w) (auto simp: ncols_def shape2_def)

lemma shape2_K_bias_add:
  "shape2 N n y \<Longrightarrow> length bs = n \<Longrightarrow> shape2 N n (K_bias_add y bs)"
  by (simp add: K_bias_add_def shape2_def list_all_length)

lemma length_concat_shape2: "shape2 N n y \<Longrightarrow> length (concat y) = N * n"
proof (induction y arbitrary: N)
  case Nil
  then show ?case by (simp add: shape2_def)
next
  case (Cons r y)
  then obtain N' where "N = Suc N'" "length r = n" "shape2 N' n y"
    by (cases N) (auto simp: shape2_def)
  with Cons.IH [of N'] show ?case by simp
qed

lemma halting_unit_shape:
  assumes x: "shape3 B S D x" and S: "0 < S" and w: "weights_ok D a"
  shows "shape2 B S (halting_unit a x)"
proof (cases "B = 0")
  case True
  with x have "x = []" by (simp add: shape3_def)
  then show ?thesis
    using True by (simp add: halting_unit_def int_shape3_def K_reshape.simps K_sigmoid_def shape2_def)
next
  case False
  then have B: "0 < B" by simp
  from w have D: "0 < D" and k: "shape2 D 1 (halting_kernel a)" and hb: "length (halting_biases a) = 1"
    by (simp_all add: weights_ok_def)
  have ish: "int_shape3 x = (B, S, D)" using int_shape3_shape3 [OF x B S] .
  have c: "shape2 (B * S) D (concat x)" using shape3_concat [OF x] .
  then have r1: "K_reshape D (concat (concat x)) = concat x"
    using D by (simp add: K_reshape_concat shape2_def)
  have "length (concat x) = B * S" using c by (simp add: shape2_def)
  then have "shape2 (B * S) (ncols (halting_kernel a)) (K_dot (concat x) (halting_kernel a))"
    by (rule shape2_K_dot)
  then have "shape2 (B * S) 1 (K_dot (concat x) (halting_kernel a))"
    using ncols_shape2 [OF k D] by simp
  then have "shape2 (B * S) 1 (K_bias_add (K_dot (concat x) (halting_kernel a)) (halting_biases a))"
    using hb by (rule shape2_K_bias_add)
  then have "length (concat (K_bias_add (K_dot (concat x) (halting_kernel a)) (halting_biases a))) = B * S"
    by (simp add: length_concat_shape2)
  then have "shape2 B S (K_reshape S
      (concat (K_bias_add (K_dot (concat x) (halting_kernel a)) (halting_biases a))))"
    using S by (simp add: shape2_K_reshape)
  then show ?thesis
    by (simp add: halting_unit_def ish r1 K_sigmoid_def shape2_map)
qed

lemma halting_unit_nth_range:
  assumes "shape2 B S (halting_unit a x)" "b < B" "t < S"
  shows "0 < halting_unit a x ! b ! t" "halting_unit a x ! b ! t < 1"
proof -
  have "halting_unit a x ! b \<in> set (halting_unit a x)"
    using assms by (simp add: shape2_def)
  moreover have "halting_unit a x ! b ! t \<in> set (halting_unit a x ! b)"
    using assms by (simp add: shape2_nth)
  ultimately have "0 < halting_unit a x ! b ! t \<and> halting_unit a x ! b ! t < 1"
    by (rule halting_unit_range)
  then show "0 < halting_unit a x ! b ! t" "halting_unit a x ! b ! t < 1" by simp_all
qed

lemma const_like: "shape2 B S h \<Longrightarrow> map (map (\<lambda>_. c)) h = replicate B (replicate S c)"
  by (rule nth_equalityI) (auto simp: shape2_def list_all_length intro: nth_equalityI)

lemma shape2_replicate [simp]: "shape2 B S (replicate B (replicate S c))"
  by (simp add: shape2_def list_all_length)

lemma control_ok_init:
  "shape2 B S h \<Longrightarrow> control_ok B S (initialize_control_tensors a h B)"
  by (simp add: control_ok_def initialize_control_tensors_def K_zeros_like_def K_ones_like_def
      const_like shape2_map)

lemma control_for_call_ok:
  "act_ok B S D a \<Longrightarrow> shape2 B S h \<Longrightarrow> control_ok B S (control_for_call a h B)"
  by (auto simp: act_ok_def control_for_call_def control_ok_init split: option.splits)

lemma concat_singletons:
  "list_all (\<lambda>r. length r = 1) m \<Longrightarrow> concat m = map (\<lambda>r. r ! 0) m"
proof (induction m)
  case Nil
  then show ?case by simp
next
  case (Cons r m)
  then obtain v where "r = [v]" by (cases r) auto
  with Cons show ?case by simp
qed

lemma snd_int_shape2: "shape2 B S r \<Longrightarrow> 0 < B \<Longrightarrow> snd (int_shape2 r) = S"
  by (cases r) (auto simp: int_shape2_def shape2_def)

lemma squeeze_sequence_mask:
  assumes "shape2 B 1 l"
  shows "K_squeeze1 (sequence_mask l S) = Inr (map (\<lambda>r. map (\<lambda>j. int j < r ! 0) [0..<S]) l)"
proof -
  have all1: "list_all (\<lambda>r. length r = 1) (sequence_mask l S)"
    using assms by (simp add: sequence_mask_def shape2_def list_all_length)
  have "concat (sequence_mask l S) = map (\<lambda>r. r ! 0) (sequence_mask l S)"
    using all1 by (rule concat_singletons)
  also have "\<dots> = map (\<lambda>r. map (\<lambda>j. int j < r ! 0) [0..<S]) l"
    using assms by (auto simp: sequence_mask_def shape2_def list_all_iff)
  finally show ?thesis using all1 by (simp add: K_squeeze1_def)
qed

lemma mask_length_ok:
  assumes l: "lengths_ok B l" and r: "shape2 B S r"
  shows "\<exists>m. mask_length_if_provided r l = Inr m \<and> shape2 B S m \<and>
           (\<forall>b<B. \<forall>t<S. m ! b ! t = (if unmasked l b t then r ! b ! t else 0))"
proof (cases l)
  case PyNone
  with r show ?thesis by (simp add: mask_length_if_provided_def unmasked_def)
next
  case (PyList xs)
  with l show ?thesis by (simp add: lengths_ok_def)
next
  case (PyTensor ten)
  with l obtain lm where ten: "ten = IntMat lm" and lm: "shape2 B 1 lm"
    by (cases ten) (auto simp: lengths_ok_def)
  show ?thesis
  proof (cases "B = 0")
    case True
    with r lm have "r = []" "lm = []" by (simp_all add: shape2_def)
    then show ?thesis
      using True PyTensor ten
      by (simp add: mask_length_if_provided_def sequence_mask_def K_squeeze1_def K_mul_def
          ew2_def K_cast_float_def shape2_def)
  next
    case False
    then have S: "snd (int_shape2 r) = S" using snd_int_shape2 [OF r] by simp
    let ?mask = "map (\<lambda>r. map (\<lambda>j. int j < r ! 0) [0..<S]) lm"
    let ?m = "K_mul r (K_cast_float ?mask)"
    have msh: "shape2 B S (K_cast_float ?mask)"
      using lm by (simp add: K_cast_float_def shape2_def list_all_length)
    have eq: "mask_length_if_provided r l = Inr ?m"
      using PyTensor ten S squeeze_sequence_mask [OF lm, of S]
      by (simp add: mask_length_if_provided_def)
    have sh: "shape2 B S ?m"
      using r msh by (simp add: K_mul_def shape2_ew2)
    have "?m ! b ! t = (if unmasked l b t then r ! b ! t else 0)" if "b < B" "t < S" for b t
    proof -
      have "K_cast_float ?mask ! b ! t = (if int t < lm ! b ! 0 then 1 else 0)"
        using that lm by (simp add: K_cast_float_def shape2_def)
      then show ?thesis
        using that r msh PyTensor ten by (simp add: K_mul_def nth_ew2 unmasked_def)
    qed
    with eq sh show ?thesis by blast
  qed
qed

lemma call_unfold:
  assumes "act_input arg = Inr (x, l)"
    and "mask_length_if_provided (remainder (call_control a x)) l = Inr mrem"
    and "mask_length_if_provided (active_steps_incremented (call_control a x)) l = Inr mact"
  shows "TransformerACT_call a arg =
     Inr (a\<lparr>ponder_cost := Some (ponder_cost_of (time_penalty a) mrem mact),
            weighted_output := Some (weighted_output_updated a (length x)
               (step_weighted_output (call_control a x) (halting_unit a x) x
                  (zeros_like_input_for_call a x))),
            zeros_like_input := Some (zeros_like_input_for_call a x),
            control := Some ((call_control a x)
               \<lparr>remainder := remainder_updated (call_control a x) (halting_unit a x) mrem,
                active_steps := mact,
                halt_budget := K_sub (halt_budget (call_control a x)) (halting_unit a x)\<rparr>)\<rparr>,
          [Cube x,
           Cube (weighted_output_updated a (length x)
               (step_weighted_output (call_control a x) (halting_unit a x) x
                  (zeros_like_input_for_call a x))),
           Vec (ponder_cost_of (time_penalty a) mrem mact)] @
          (if return_step a then [Mat mact] else []))"
  using assms by (simp add: TransformerACT_call_def Let_def)

lemma init_values:
  assumes h: "shape2 B S h" and b: "b < B" and t: "t < S"
  shows "halt_budget (initialize_control_tensors a h bs) ! b ! t = 1 - halt_epsilon a"
    and "remainder (initialize_control_tensors a h bs) ! b ! t = 1"
    and "active_steps (initialize_control_tensors a h bs) ! b ! t = 0"
    and "zeros_like_halting (initialize_control_tensors a h bs) = replicate B (replicate S 0)"
    and "ones_like_halting (initialize_control_tensors a h bs) = replicate B (replicate S 1)"
    and "batch_size (initialize_control_tensors a h bs) = bs"
  using assms
  by (simp_all add: initialize_control_tensors_def K_ones_like_def K_zeros_like_def const_like)


lemma control_ok_shapes:
  assumes "control_ok B S c"
  shows "shape2 B S (halt_budget c)" "shape2 B S (remainder c)" "shape2 B S (active_steps c)"
    "shape2 B S (zeros_like_halting c)" "shape2 B S (ones_like_halting c)"
  using assms by (simp_all add: control_ok_def)

lemma step_is_active_shape: "control_ok B S c \<Longrightarrow> shape2 B S (step_is_active c)"
  by (simp add: step_is_active_def K_greater_def shape2_map control_ok_shapes)

lemma step_is_active_nth:
  assumes c: "control_ok B S c" and b: "b < B" and t: "t < S"
  shows "step_is_active c ! b ! t = (halt_budget c ! b ! t > 0)"
proof -
  have hb: "shape2 B S (halt_budget c)" using c by (rule control_ok_shapes)
  show ?thesis
    unfolding step_is_active_def K_greater_def by (rule nth_map_map [OF hb b t])
qed

lemma K_sub_shape: "shape2 B S x \<Longrightarrow> shape2 B S y \<Longrightarrow> shape2 B S (K_sub x y)"
  by (simp add: K_sub_def shape2_ew2)

lemma K_sub_nth:
  "shape2 B S x \<Longrightarrow> shape2 B S y \<Longrightarrow> b < B \<Longrightarrow> t < S \<Longrightarrow>
   K_sub x y ! b ! t = x ! b ! t - y ! b ! t"
  by (simp add: K_sub_def nth_ew2)

lemma K_add_shape: "shape2 B S x \<Longrightarrow> shape2 B S y \<Longrightarrow> shape2 B S (K_add x y)"
  by (simp add: K_add_def shape2_ew2)

lemma K_add_nth:
  "shape2 B S x \<Longrightarrow> shape2 B S y \<Longrightarrow> b < B \<Longrightarrow> t < S \<Longrightarrow>
   K_add x y ! b ! t = x ! b ! t + y ! b ! t"
  by (simp add: K_add_def nth_ew2)

lemma no_further_steps_shape:
  "control_ok B S c \<Longrightarrow> shape2 B S h \<Longrightarrow> shape2 B S (no_further_steps c h)"
  by (simp add: no_further_steps_def K_less_equal_def shape2_map K_sub_shape control_ok_shapes)

lemma no_further_steps_nth:
  assumes c: "control_ok B S c" and h: "shape2 B S h" and b: "b < B" and t: "t < S"
  shows "no_further_steps c h ! b ! t = (halt_budget c ! b ! t - h ! b ! t \<le> 0)"
proof -
  have hb: "shape2 B S (halt_budget c)" using c by (rule control_ok_shapes)
  have sub: "shape2 B S (K_sub (halt_budget c) h)" using hb h by (rule K_sub_shape)
  have "no_further_steps c h ! b ! t = (K_sub (halt_budget c) h ! b ! t \<le> 0)"
    unfolding no_further_steps_def K_less_equal_def by (rule nth_map_map [OF sub b t])
  also have "K_sub (halt_budget c) h ! b ! t = halt_budget c ! b ! t - h ! b ! t"
    by (rule K_sub_nth [OF hb h b t])
  finally show ?thesis .
qed


lemma halting_prob_nth:
  assumes c: "control_ok B S c" and h: "shape2 B S h" and b: "b < B" and t: "t < S"
  shows "halting_prob c h ! b ! t =
    (if halt_budget c ! b ! t > 0
     then (if halt_budget c ! b ! t - h ! b ! t \<le> 0 then remainder c ! b ! t else h ! b ! t)
     else 0)"
proof -
  have z: "zeros_like_halting c ! b ! t = 0"
    using c b t by (simp add: control_ok_def)
  have zs: "shape2 B S (zeros_like_halting c)" and rs: "shape2 B S (remainder c)"
    using c by (simp_all add: control_ok_shapes)
  have act: "shape2 B S (step_is_active c)" using c by (rule step_is_active_shape)
  have nfs: "shape2 B S (no_further_steps c h)" using c h by (rule no_further_steps_shape)
  have inner: "shape2 B S (K_switch (no_further_steps c h) (remainder c) h)"
    using nfs rs h by (rule shape2_K_switch)
  have "halting_prob c h ! b ! t =
    (if step_is_active c ! b ! t
     then K_switch (no_further_steps c h) (remainder c) h ! b ! t
     else zeros_like_halting c ! b ! t)"
    unfolding halting_prob_def by (rule nth_K_switch [OF act inner zs b t])
  also have "K_switch (no_further_steps c h) (remainder c) h ! b ! t =
    (if no_further_steps c h ! b ! t then remainder c ! b ! t else h ! b ! t)"
    by (rule nth_K_switch [OF nfs rs h b t])
  finally show ?thesis
    using z step_is_active_nth [OF c b t] no_further_steps_nth [OF c h b t] by simp
qed

lemma active_steps_incremented_shape:
  "control_ok B S c \<Longrightarrow> shape2 B S (active_steps_incremented c)"
  by (simp add: active_steps_incremented_def K_add_shape shape2_K_switch step_is_active_shape
      control_ok_shapes)


lemma remainder_updated_shape:
  "control_ok B S c \<Longrightarrow> shape2 B S h \<Longrightarrow> shape2 B S r \<Longrightarrow>
   shape2 B S (remainder_updated c h r)"
  by (simp add: remainder_updated_def shape2_K_switch no_further_steps_shape K_sub_shape)

lemma remainder_updated_nth:
  assumes c: "control_ok B S c" and h: "shape2 B S h" and r: "shape2 B S r"
    and b: "b < B" and t: "t < S"
  shows "remainder_updated c h r ! b ! t =
     (if halt_budget c ! b ! t - h ! b ! t \<le> 0 then r ! b ! t else r ! b ! t - h ! b ! t)"
proof -
  have nfs: "shape2 B S (no_further_steps c h)" using c h by (rule no_further_steps_shape)
  have sub: "shape2 B S (K_sub r h)" using r h by (rule K_sub_shape)
  have "remainder_updated c h r ! b ! t =
    (if no_further_steps c h ! b ! t then r ! b ! t else K_sub r h ! b ! t)"
    unfolding remainder_updated_def by (rule nth_K_switch [OF nfs r sub b t])
  then show ?thesis
    using no_further_steps_nth [OF c h b t] K_sub_nth [OF r h b t] by simp
qed

lemma K_zeros_like3_replicate:
  "shape3 B S D x \<Longrightarrow> K_zeros_like3 x = replicate B (replicate S (replicate D 0))"
  unfolding K_zeros_like3_def
  by (rule nth_equalityI) (auto simp: shape3_def list_all_length const_like)

lemma zeros_replicate_ok:
  assumes S: "0 < S"
  shows "(case int_shape3 (replicate B (replicate S (replicate D (0::real)))) of
           (B', S', D') \<Rightarrow>
             replicate B (replicate S (replicate D 0)) = replicate B' (replicate S' (replicate D' 0)))"
proof (cases B)
  case 0
  then show ?thesis by (simp add: int_shape3_def)
next
  case (Suc B')
  obtain S' where S': "S = Suc S'" using S by (cases S) auto
  show ?thesis by (simp add: int_shape3_def Suc S')
qed

lemma zeros_like_input_for_call_eq:
  assumes z: "zeros_ok a" and x: "shape3 B S D x" and S: "0 < S"
  shows "zeros_like_input_for_call a x = K_zeros_like3 x"
proof (cases "zeros_like_input a")
  case None
  then show ?thesis by (simp add: zeros_like_input_for_call_def)
next
  case (Some zt)
  show ?thesis
  proof (cases "int_shape3 zt = int_shape3 x")
    case False
    with Some show ?thesis by (simp add: zeros_like_input_for_call_def)
  next
    case True
    have "zt = K_zeros_like3 x"
    proof (cases "B = 0")
      case True
      with x have x0: "x = []" by (simp add: shape3_def)
      with \<open>int_shape3 zt = int_shape3 x\<close> have "zt = []" by (simp add: int_shape3_def)
      with x0 show ?thesis by (simp add: K_zeros_like3_def)
    next
      case False
      then have "int_shape3 x = (B, S, D)" using int_shape3_shape3 [OF x _ S] by simp
      with True z Some have "zt = replicate B (replicate S (replicate D 0))"
        by (simp add: zeros_ok_def)
      then show ?thesis using K_zeros_like3_replicate [OF x] by simp
    qed
    with Some True show ?thesis by (simp add: zeros_like_input_for_call_def)
  qed
qed

lemma call_facts:
  assumes ok: "act_ok B S D a" and arg: "act_input arg = Inr (x, l)"
    and x: "shape3 B S D x" and l: "lengths_ok B l"
  obtains mrem mact a' outs where
    "control_ok B S (call_control a x)"
    "shape2 B S (halting_unit a x)"
    "mask_length_if_provided (remainder (call_control a x)) l = Inr mrem"
    "mask_length_if_provided (active_steps_incremented (call_control a x)) l = Inr mact"
    "shape2 B S mrem" "shape2 B S mact"
    "\<forall>b<B. \<forall>t<S. mrem ! b ! t =
       (if unmasked l b t then remainder (call_control a x) ! b ! t else 0)"
    "\<forall>b<B. \<forall>t<S. mact ! b ! t =
       (if unmasked l b t then active_steps_incremented (call_control a x) ! b ! t else 0)"
    "TransformerACT_call a arg = Inr (a', outs)"
    "control a' = Some ((call_control a x)
        \<lparr>remainder := remainder_updated (call_control a x) (halting_unit a x) mrem,
         active_steps := mact,
         halt_budget := K_sub (halt_budget (call_control a x)) (halting_unit a x)\<rparr>)"
    "ponder_cost a' = Some (ponder_cost_of (time_penalty a) mrem mact)"
    "losses a' = losses a"
    "act_ok B S D a'"
proof -
  let ?h = "halting_unit a x"
  let ?c = "call_control a x"
  from ok have S: "0 < S" and w: "weights_ok D a" and z: "zeros_ok a"
    by (simp_all add: act_ok_def)
  have lx: "length x = B" using x by (simp add: shape3_def)
  have h: "shape2 B S ?h" using x S w by (rule halting_unit_shape)
  have c: "control_ok B S ?c"
    unfolding call_control_def fst_int_shape3 lx using ok h by (rule control_for_call_ok)
  from mask_length_ok [OF l control_ok_shapes(2) [OF c]] obtain mrem where
    mrem: "mask_length_if_provided (remainder ?c) l = Inr mrem" "shape2 B S mrem"
      "\<forall>b<B. \<forall>t<S. mrem ! b ! t = (if unmasked l b t then remainder ?c ! b ! t else 0)"
    by blast
  from mask_length_ok [OF l active_steps_incremented_shape [OF c]] obtain mact where
    mact: "mask_length_if_provided (active_steps_incremented ?c) l = Inr mact" "shape2 B S mact"
      "\<forall>b<B. \<forall>t<S. mact ! b ! t = (if unmasked l b t then active_steps_incremented ?c ! b ! t else 0)"
    by blast
  let ?c' = "?c\<lparr>remainder := remainder_updated ?c ?h mrem, active_steps := mact,
                halt_budget := K_sub (halt_budget ?c) ?h\<rparr>"
  let ?wo = "weighted_output_updated a (length x)
               (step_weighted_output ?c ?h x (zeros_like_input_for_call a x))"
  let ?a' = "a\<lparr>ponder_cost := Some (ponder_cost_of (time_penalty a) mrem mact),
               weighted_output := Some ?wo,
               zeros_like_input := Some (zeros_like_input_for_call a x),
               control := Some ?c'\<rparr>"
  let ?outs = "[Cube x, Cube ?wo, Vec (ponder_cost_of (time_penalty a) mrem mact)] @
          (if return_step a then [Mat mact] else [])"
  have call: "TransformerACT_call a arg = Inr (?a', ?outs)"
    using arg mrem(1) mact(1) by (rule call_unfold)
  have c': "control_ok B S ?c'"
    using c remainder_updated_shape [OF c h mrem(2)] mact(2)
      K_sub_shape [OF control_ok_shapes(1) [OF c] h]
    by (simp add: control_ok_def)
  have "zeros_like_input_for_call a x = replicate B (replicate S (replicate D 0))"
    using zeros_like_input_for_call_eq [OF z x S] K_zeros_like3_replicate [OF x] by simp
  then have z': "zeros_ok ?a'"
    using zeros_replicate_ok [OF S, of B D] by (simp add: zeros_ok_def)
  have ok': "act_ok B S D ?a'"
    using S w z' c' by (simp add: act_ok_def weights_ok_def)
  show thesis
    by (rule that [OF c h mrem(1) mact(1) mrem(2) mact(2) mrem(3) mact(3) call _ _ _ ok']) simp_all
qed





lemma K_add_row:
  assumes r: "shape2 B S r" and a: "shape2 B S a" and b: "b < B"
  shows "K_add r a ! b = map (\<lambda>t. r ! b ! t + a ! b ! t) [0..<S]"
proof (rule nth_equalityI)
  have sh: "shape2 B S (K_add r a)" using r a by (rule K_add_shape)
  show "length (K_add r a ! b) = length (map (\<lambda>t. r ! b ! t + a ! b ! t) [0..<S])"
    using shape2_nth [OF sh b] by simp
  fix t assume "t < length (K_add r a ! b)"
  then have t: "t < S" using shape2_nth [OF sh b] by simp
  show "K_add r a ! b ! t = map (\<lambda>t. r ! b ! t + a ! b ! t) [0..<S] ! t"
    using K_add_nth [OF r a b t] t by simp
qed

lemma ponder_cost_of_nth:
  assumes r: "shape2 B S r" and a: "shape2 B S a" and b: "b < B"
  shows "ponder_cost_of p r a ! b = p * (sum_list (map (\<lambda>t. r ! b ! t + a ! b ! t) [0..<S]) / real S)"
proof -
  have sh: "shape2 B S (K_add r a)" using r a by (rule K_add_shape)
  then have len: "b < length (K_add r a)" using b by (simp add: shape2_def)
  show ?thesis
    using len K_add_row [OF r a b] by (simp add: ponder_cost_of_def K_mean_axis1_def)
qed


section \<open>One call\<close>

lemma call_control_ok:
  assumes ok: "act_ok B S D a" and x: "shape3 B S D x"
  shows "control_ok B S (call_control a x)" and "shape2 B S (halting_unit a x)"
proof -
  from ok have S: "0 < S" and w: "weights_ok D a" by (simp_all add: act_ok_def)
  show h: "shape2 B S (halting_unit a x)" using x S w by (rule halting_unit_shape)
  have "length x = B" using x by (simp add: shape3_def)
  then show "control_ok B S (call_control a x)"
    unfolding call_control_def using control_for_call_ok [OF ok h] by simp
qed

lemma example_halting: "halting_unit (act_example eps) input_example = [[1 / 2, 1 / 2]]"
  by (simp add: halting_unit_def act_example_def input_example_def TransformerACT_init_def
      int_shape3_def K_sigmoid_def K_reshape.simps K_bias_add_def K_dot_def ncols_def column_def)

lemma example_ok: "act_ok 1 2 1 (act_example eps)"
  by (simp add: act_ok_def weights_ok_def zeros_ok_def shape2_def act_example_def
      TransformerACT_init_def)

lemma example_shape: "shape3 1 2 1 input_example"
  by (simp add: input_example_def shape3_def shape2_def)

lemma example_control:
  "call_control (act_example eps) input_example =
     \<lparr>zeros_like_halting = [[0, 0]], ones_like_halting = [[1, 1]], remainder = [[1, 1]],
      active_steps = [[0, 0]], halt_budget = [[1 - eps, 1 - eps]], batch_size = 1\<rparr>"
  unfolding call_control_def example_halting
  by (simp add: control_for_call_def initialize_control_tensors_def act_example_def
      TransformerACT_init_def input_example_def K_zeros_like_def K_ones_like_def)



lemma example_arg_lengths:
  "act_input (PyList [PyTensor (Cube input_example), lengths_example]) =
     Inr (input_example, PyTensor (IntMat [[1]]))"
  by (simp add: lengths_example_def)


lemma example_active_steps:
  "eps < 1 \<Longrightarrow>
   active_steps_incremented (call_control (act_example eps) input_example) = [[1, 1]]"
  by (simp add: example_control active_steps_incremented_def K_add_def K_switch_def ew2_def
      step_is_active_def K_greater_def)

lemma example_masked:
  "mask_length_if_provided [[u, v]] (PyTensor (IntMat [[1]])) = Inr [[u, 0]]"
  by (simp add: mask_length_if_provided_def int_shape2_def sequence_mask_def K_squeeze1_def
      K_mul_def ew2_def K_cast_float_def)

section \<open>Updating the remainder and the halt budget\<close>



section \<open>The ponder cost\<close>



section \<open>Padding positions\<close>

text \<open>
  C6.  When a call is given lengths, the remainder and the active-step count from which
  the ponder cost is computed are 0 at every position at or beyond its sequence's
  length, so the ponder cost of a batch row is the time penalty times the sum over the
  positions below the length, divided by the sequence length.
\<close>

theorem padding_contributes_zero:
  assumes ok: "act_ok B S D a" and arg: "act_input arg = Inr (x, PyTensor (IntMat lm))"
    and x: "shape3 B S D x" and lm: "shape2 B 1 lm" and b: "b < B"
  shows "\<exists>a' outs mrem mact pc.
           TransformerACT_call a arg = Inr (a', outs) \<and>
           mask_length_if_provided (remainder (call_control a x)) (PyTensor (IntMat lm)) = Inr mrem \<and>
           mask_length_if_provided (active_steps_incremented (call_control a x))
             (PyTensor (IntMat lm)) = Inr mact \<and>
           (\<forall>t<S. lm ! b ! 0 \<le> int t \<longrightarrow> mrem ! b ! t = 0 \<and> mact ! b ! t = 0) \<and>
           ponder_cost a' = Some pc \<and>
           pc ! b = time_penalty a *
             (sum_list (map (\<lambda>t. if int t < lm ! b ! 0
                                 then remainder (call_control a x) ! b ! t +
                                      active_steps_incremented (call_control a x) ! b ! t
                                 else 0) [0..<S]) / real S)"
proof -
  let ?l = "PyTensor (IntMat lm)"
  have l: "lengths_ok B ?l" using lm by (simp add: lengths_ok_def)
  from call_facts [OF ok arg x l] obtain mrem mact a' outs where
    mrem: "mask_length_if_provided (remainder (call_control a x)) ?l = Inr mrem" "shape2 B S mrem"
      "\<forall>b<B. \<forall>t<S. mrem ! b ! t =
         (if unmasked ?l b t then remainder (call_control a x) ! b ! t else 0)"
    and mact: "mask_length_if_provided (active_steps_incremented (call_control a x)) ?l = Inr mact"
      "shape2 B S mact"
      "\<forall>b<B. \<forall>t<S. mact ! b ! t =
         (if unmasked ?l b t then active_steps_incremented (call_control a x) ! b ! t else 0)"
    and call: "TransformerACT_call a arg = Inr (a', outs)"
    and pc: "ponder_cost a' = Some (ponder_cost_of (time_penalty a) mrem mact)"
    by metis
  let ?pc = "ponder_cost_of (time_penalty a) mrem mact"
  have un: "unmasked ?l b t = (int t < lm ! b ! 0)" for t by (simp add: unmasked_def)
  have zero: "\<forall>t<S. lm ! b ! 0 \<le> int t \<longrightarrow> mrem ! b ! t = 0 \<and> mact ! b ! t = 0"
    using mrem(3) mact(3) b by (simp add: un)
  have eq: "map (\<lambda>t. mrem ! b ! t + mact ! b ! t) [0..<S] =
        map (\<lambda>t. if int t < lm ! b ! 0
                  then remainder (call_control a x) ! b ! t +
                       active_steps_incremented (call_control a x) ! b ! t
                  else 0) [0..<S]"
    using mrem(3) mact(3) b by (simp add: un)
  have "?pc ! b = time_penalty a *
             (sum_list (map (\<lambda>t. if int t < lm ! b ! 0
                                 then remainder (call_control a x) ! b ! t +
                                      active_steps_incremented (call_control a x) ! b ! t
                                 else 0) [0..<S]) / real S)"
    unfolding eq [symmetric] by (rule ponder_cost_of_nth [OF mrem(2) mact(2) b])
  with call mrem(1) mact(1) zero pc show ?thesis by blast
qed

theorem padding_contributes_zero_witness:
  "act_ok 1 2 1 (act_example (1 / 100)) \<and>
   act_input (PyList [PyTensor (Cube input_example), lengths_example]) =
     Inr (input_example, PyTensor (IntMat [[1]])) \<and>
   shape3 1 2 1 input_example \<and> shape2 1 1 [[1::int]] \<and>
   (\<exists>a' outs mrem mact pc.
      TransformerACT_call (act_example (1 / 100))
        (PyList [PyTensor (Cube input_example), lengths_example]) = Inr (a', outs) \<and>
      mask_length_if_provided (remainder (call_control (act_example (1 / 100)) input_example))
        (PyTensor (IntMat [[1]])) = Inr mrem \<and>
      mask_length_if_provided
        (active_steps_incremented (call_control (act_example (1 / 100)) input_example))
        (PyTensor (IntMat [[1]])) = Inr mact \<and>
      mrem ! 0 ! 1 = 0 \<and> mact ! 0 ! 1 = 0 \<and>
      ponder_cost a' = Some pc \<and> pc ! 0 = 1 / 100)"
proof -
  have lm: "shape2 1 1 [[1::int]]" by (simp add: shape2_def)
  from padding_contributes_zero [OF example_ok example_arg_lengths example_shape lm, of 0 "1 / 100"]
  obtain a' outs mrem mact pc where
    call: "TransformerACT_call (act_example (1 / 100))
        (PyList [PyTensor (Cube input_example), lengths_example]) = Inr (a', outs)"
    and m1: "mask_length_if_provided (remainder (call_control (act_example (1 / 100)) input_example))
        (PyTensor (IntMat [[1]])) = Inr mrem"
    and m2: "mask_length_if_provided
        (active_steps_incremented (call_control (act_example (1 / 100)) input_example))
        (PyTensor (IntMat [[1]])) = Inr mact"
    and z: "\<forall>t<2. [[1::int]] ! 0 ! 0 \<le> int t \<longrightarrow> mrem ! 0 ! t = 0 \<and> mact ! 0 ! t = 0"
    and pc: "ponder_cost a' = Some pc"
    and pcb: "pc ! 0 = time_penalty (act_example (1 / 100)) *
             (sum_list (map (\<lambda>t. if int t < [[1::int]] ! 0 ! 0
                 then remainder (call_control (act_example (1 / 100)) input_example) ! 0 ! t +
                      active_steps_incremented (call_control (act_example (1 / 100)) input_example) ! 0 ! t
                 else 0) [0..<2]) / real 2)"
    by auto
  from z have z1: "mrem ! 0 ! 1 = 0" "mact ! 0 ! 1 = 0" by simp_all
  have upt2: "[0..<2] = [0, Suc 0]" by (simp add: upt_rec)
  have tp: "time_penalty (act_example (1 / 100)) = 1 / 100"
    by (simp add: act_example_def TransformerACT_init_def)
  have act: "active_steps_incremented (call_control (act_example (1 / 100)) input_example) = [[1, 1]]"
    by (rule example_active_steps) simp
  have "pc ! 0 = 1 / 100"
    unfolding pcb upt2 tp act by (simp add: example_control)
  with call m1 m2 z1 pc example_ok example_arg_lengths example_shape lm show ?thesis by blast
qed

section \<open>Conservation of the halting weights\<close>

lemma call_control_current:
  assumes ok: "act_ok B S D a" and x: "shape3 B S D x" and b: "b < B" and t: "t < S"
  shows "halt_budget (call_control a x) ! b ! t = current_budget a b t"
    and "remainder (call_control a x) ! b ! t = current_remainder a b t"
proof -
  from ok have S: "0 < S" and w: "weights_ok D a" by (simp_all add: act_ok_def)
  have h: "shape2 B S (halting_unit a x)" using x S w by (rule halting_unit_shape)
  have lx: "length x = B" using x by (simp add: shape3_def)
  show "halt_budget (call_control a x) ! b ! t = current_budget a b t"
    using ok init_values(1) [OF h b t, of a B] lx
    by (auto simp: call_control_def control_for_call_def current_budget_def act_ok_def
        control_ok_def split: option.splits)
  show "remainder (call_control a x) ! b ! t = current_remainder a b t"
    using ok init_values(2) [OF h b t, of a B] lx
    by (auto simp: call_control_def control_for_call_def current_remainder_def act_ok_def
        control_ok_def split: option.splits)
qed

lemma call_step:
  assumes ok: "act_ok B S D a" and arg: "call_arg_ok B S D arg" and un: "arg_unmasked arg b t"
    and b: "b < B" and t: "t < S"
  obtains a' outs x l where
    "act_input arg = Inr (x, l)" "shape3 B S D x"
    "TransformerACT_call a arg = Inr (a', outs)" "act_ok B S D a'"
    "0 < halting_unit a x ! b ! t"
    "te_budget (call_entry a x) ! b ! t = current_budget a b t"
    "te_halting (call_entry a x) ! b ! t = halting_unit a x ! b ! t"
    "te_weight (call_entry a x) ! b ! t =
       (if current_budget a b t > 0
        then (if current_budget a b t - halting_unit a x ! b ! t \<le> 0
              then current_remainder a b t else halting_unit a x ! b ! t)
        else 0)"
    "current_budget a' b t = current_budget a b t - halting_unit a x ! b ! t"
    "current_remainder a' b t =
       (if current_budget a b t - halting_unit a x ! b ! t \<le> 0
        then current_remainder a b t
        else current_remainder a b t - halting_unit a x ! b ! t)"
proof -
  from arg obtain x l where inp: "act_input arg = Inr (x, l)" and x: "shape3 B S D x"
    and l: "lengths_ok B l"
    by (auto simp: call_arg_ok_def split: sum.splits)
  from un inp have ul: "unmasked l b t" by (simp add: arg_unmasked_def)
  from call_facts [OF ok inp x l] obtain mrem mact a' outs where
    c: "control_ok B S (call_control a x)" and h: "shape2 B S (halting_unit a x)"
    and mrem: "shape2 B S mrem"
      "\<forall>b<B. \<forall>t<S. mrem ! b ! t =
         (if unmasked l b t then remainder (call_control a x) ! b ! t else 0)"
    and call: "TransformerACT_call a arg = Inr (a', outs)"
    and c': "control a' = Some ((call_control a x)
        \<lparr>remainder := remainder_updated (call_control a x) (halting_unit a x) mrem,
         active_steps := mact,
         halt_budget := K_sub (halt_budget (call_control a x)) (halting_unit a x)\<rparr>)"
    and ok': "act_ok B S D a'"
    by metis
  have pos: "0 < halting_unit a x ! b ! t" using h b t by (rule halting_unit_nth_range)
  have cb: "halt_budget (call_control a x) ! b ! t = current_budget a b t"
    and cr: "remainder (call_control a x) ! b ! t = current_remainder a b t"
    using ok x b t by (rule call_control_current)+
  have m: "mrem ! b ! t = current_remainder a b t"
    using mrem(2) b t ul cr by simp
  have e1: "te_budget (call_entry a x) ! b ! t = current_budget a b t"
    using cb by (simp add: call_entry_def Let_def)
  have e2: "te_halting (call_entry a x) ! b ! t = halting_unit a x ! b ! t"
    by (simp add: call_entry_def Let_def)
  have e3: "te_weight (call_entry a x) ! b ! t =
       (if current_budget a b t > 0
        then (if current_budget a b t - halting_unit a x ! b ! t \<le> 0
              then current_remainder a b t else halting_unit a x ! b ! t)
        else 0)"
    using halting_prob_nth [OF c h b t] cb cr by (simp add: call_entry_def Let_def)
  have n1: "current_budget a' b t = current_budget a b t - halting_unit a x ! b ! t"
    using c' K_sub_nth [OF control_ok_shapes(1) [OF c] h b t] cb
    by (simp add: current_budget_def)
  have n2: "current_remainder a' b t =
       (if current_budget a b t - halting_unit a x ! b ! t \<le> 0
        then current_remainder a b t
        else current_remainder a b t - halting_unit a x ! b ! t)"
    using c' remainder_updated_nth [OF c h mrem(1) b t] cb m
    by (simp add: current_remainder_def)
  show thesis
    using that [OF inp x call ok' pos e1 e2 e3 n1 n2] .
qed

lemma trace_weights:
  assumes "act_ok B S D a"
    and "list_all (\<lambda>arg. call_arg_ok B S D arg \<and> arg_unmasked arg b t) args"
    and b: "b < B" and t: "t < S"
  shows "\<exists>tr. ACT_trace a args = Inr tr \<and> length tr = length args \<and>
           (current_budget a b t \<le> 0 \<longrightarrow>
              weight_sum b t tr = 0 \<and> \<not> list_ex (exhausts_at b t) tr) \<and>
           (list_ex (exhausts_at b t) tr \<longrightarrow> weight_sum b t tr = current_remainder a b t)"
  using assms(1,2)
proof (induction args arbitrary: a)
  case Nil
  then show ?case by (simp add: weight_sum_def)
next
  case (Cons arg args)
  from Cons.prems(2) have arg: "call_arg_ok B S D arg" and un: "arg_unmasked arg b t"
    and rest: "list_all (\<lambda>arg. call_arg_ok B S D arg \<and> arg_unmasked arg b t) args"
    by simp_all
  from call_step [OF Cons.prems(1) arg un b t] obtain a' outs x l where
    inp: "act_input arg = Inr (x, l)"
    and call: "TransformerACT_call a arg = Inr (a', outs)" and ok': "act_ok B S D a'"
    and pos: "0 < halting_unit a x ! b ! t"
    and e1: "te_budget (call_entry a x) ! b ! t = current_budget a b t"
    and e2: "te_halting (call_entry a x) ! b ! t = halting_unit a x ! b ! t"
    and e3: "te_weight (call_entry a x) ! b ! t =
       (if current_budget a b t > 0
        then (if current_budget a b t - halting_unit a x ! b ! t \<le> 0
              then current_remainder a b t else halting_unit a x ! b ! t)
        else 0)"
    and n1: "current_budget a' b t = current_budget a b t - halting_unit a x ! b ! t"
    and n2: "current_remainder a' b t =
       (if current_budget a b t - halting_unit a x ! b ! t \<le> 0
        then current_remainder a b t
        else current_remainder a b t - halting_unit a x ! b ! t)"
    by metis
  from Cons.IH [OF ok' rest] obtain tr where
    tr: "ACT_trace a' args = Inr tr" and len: "length tr = length args"
    and halted: "current_budget a' b t \<le> 0 \<longrightarrow>
              weight_sum b t tr = 0 \<and> \<not> list_ex (exhausts_at b t) tr"
    and ex: "list_ex (exhausts_at b t) tr \<longrightarrow> weight_sum b t tr = current_remainder a' b t"
    by blast
  let ?e = "call_entry a x"
  have trace: "ACT_trace a (arg # args) = Inr (?e # tr)"
    using call tr inp by simp
  have sum: "weight_sum b t (?e # tr) = te_weight ?e ! b ! t + weight_sum b t tr"
    by (simp add: weight_sum_def)
  have exh: "exhausts_at b t ?e =
      (current_budget a b t > 0 \<and> current_budget a b t - halting_unit a x ! b ! t \<le> 0)"
    by (simp add: exhausts_at_def e1 e2)
  have A: "weight_sum b t (?e # tr) = 0 \<and> \<not> list_ex (exhausts_at b t) (?e # tr)"
    if "current_budget a b t \<le> 0"
  proof -
    from that pos n1 have "current_budget a' b t \<le> 0" by simp
    with halted have "weight_sum b t tr = 0" "\<not> list_ex (exhausts_at b t) tr" by simp_all
    with that show ?thesis by (simp add: sum e3 exh)
  qed
  have B: "weight_sum b t (?e # tr) = current_remainder a b t"
    if "list_ex (exhausts_at b t) (?e # tr)"
  proof (cases "current_budget a b t > 0")
    case False
    then have "current_budget a b t \<le> 0" by simp
    from A [OF this] that show ?thesis by simp
  next
    case True
    show ?thesis
    proof (cases "current_budget a b t - halting_unit a x ! b ! t \<le> 0")
      case True
      then have "current_budget a' b t \<le> 0" using n1 by simp
      with halted have "weight_sum b t tr = 0" by simp
      with True \<open>current_budget a b t > 0\<close> show ?thesis by (simp add: sum e3)
    next
      case False
      then have "\<not> exhausts_at b t ?e" by (simp add: exh)
      with that have "list_ex (exhausts_at b t) tr" by simp
      with ex have "weight_sum b t tr = current_remainder a' b t" by simp
      with False True show ?thesis by (simp add: sum e3 n2)
    qed
  qed
  show ?case using trace len A B by auto
qed

lemma halting_example_gen:
  "halting_kernel a = [[0]] \<Longrightarrow> halting_biases a = [0] \<Longrightarrow>
   halting_unit a input_example = [[1 / 2, 1 / 2]]"
  by (simp add: halting_unit_def input_example_def
      int_shape3_def K_sigmoid_def K_reshape.simps K_bias_add_def K_dot_def ncols_def column_def)

lemma mask_none: "mask_length_if_provided r PyNone = Inr r"
  by (simp add: mask_length_if_provided_def)

lemma example_call_step:
  assumes k: "halting_kernel a = [[0]]" "halting_biases a = [0]"
    and c: "call_control a input_example =
       \<lparr>zeros_like_halting = [[0, 0]], ones_like_halting = [[1, 1]], remainder = [[r0, r1]],
        active_steps = [[s0, s1]], halt_budget = [[b0, b1]], batch_size = 1\<rparr>"
    and arg: "act_input arg = Inr (input_example, l)"
    and l: "l = PyNone \<and> m1 = r1 \<or> l = PyTensor (IntMat [[1]]) \<and> m1 = 0"
  shows "\<exists>a' outs s0' s1'.
     TransformerACT_call a arg = Inr (a', outs) \<and>
     halting_kernel a' = [[0]] \<and> halting_biases a' = [0] \<and>
     call_control a' input_example =
       \<lparr>zeros_like_halting = [[0, 0]], ones_like_halting = [[1, 1]],
        remainder = [[if b0 - 1 / 2 \<le> 0 then r0 else r0 - 1 / 2,
                      if b1 - 1 / 2 \<le> 0 then m1 else m1 - 1 / 2]],
        active_steps = [[s0', s1']], halt_budget = [[b0 - 1 / 2, b1 - 1 / 2]],
        batch_size = 1\<rparr>"
    and "call_entry a input_example =
       \<lparr>te_budget = [[b0, b1]], te_halting = [[1 / 2, 1 / 2]],
        te_weight = [[if b0 > 0 then (if b0 - 1 / 2 \<le> 0 then r0 else 1 / 2) else 0,
                      if b1 > 0 then (if b1 - 1 / 2 \<le> 0 then r1 else 1 / 2) else 0]]\<rparr>"
proof -
  have h: "halting_unit a input_example = [[1 / 2, 1 / 2]]"
    using k by (rule halting_example_gen)
  show "call_entry a input_example =
       \<lparr>te_budget = [[b0, b1]], te_halting = [[1 / 2, 1 / 2]],
        te_weight = [[if b0 > 0 then (if b0 - 1 / 2 \<le> 0 then r0 else 1 / 2) else 0,
                      if b1 > 0 then (if b1 - 1 / 2 \<le> 0 then r1 else 1 / 2) else 0]]\<rparr>"
    unfolding call_entry_def Let_def h c
    by (simp add: halting_prob_def K_switch_def ew2_def step_is_active_def K_greater_def
        no_further_steps_def K_less_equal_def K_sub_def)
  let ?t0 = "s0 + (if b0 > 0 then 1 else 0)"
  let ?t1 = "s1 + (if b1 > 0 then 1 else 0)"
  have act: "active_steps_incremented
       \<lparr>zeros_like_halting = [[0, 0]], ones_like_halting = [[1, 1]], remainder = [[r0, r1]],
        active_steps = [[s0, s1]], halt_budget = [[b0, b1]], batch_size = 1\<rparr> = [[?t0, ?t1]]"
    by (simp add: active_steps_incremented_def K_add_def K_switch_def ew2_def
        step_is_active_def K_greater_def)
  have "\<exists>u1. mask_length_if_provided (remainder (call_control a input_example)) l = Inr [[r0, m1]] \<and>
    mask_length_if_provided (active_steps_incremented (call_control a input_example)) l
       = Inr [[?t0, u1]]"
    unfolding c act using l
    by (auto simp: example_masked mask_none)
  then obtain u1 where
    m1: "mask_length_if_provided (remainder (call_control a input_example)) l = Inr [[r0, m1]]"
    and m2: "mask_length_if_provided (active_steps_incremented (call_control a input_example)) l
       = Inr [[?t0, u1]]"
    by blast
  have r: "remainder_updated (call_control a input_example) (halting_unit a input_example) [[r0, m1]]
     = [[if b0 - 1 / 2 \<le> 0 then r0 else r0 - 1 / 2, if b1 - 1 / 2 \<le> 0 then m1 else m1 - 1 / 2]]"
    unfolding c h
    by (simp add: remainder_updated_def K_switch_def ew2_def no_further_steps_def
        K_less_equal_def K_sub_def)
  have bud: "K_sub (halt_budget (call_control a input_example)) (halting_unit a input_example)
     = [[b0 - 1 / 2, b1 - 1 / 2]]"
    unfolding c h by (simp add: K_sub_def ew2_def)
  let ?c' = "\<lparr>zeros_like_halting = [[0, 0]], ones_like_halting = [[1, 1]],
        remainder = [[if b0 - 1 / 2 \<le> 0 then r0 else r0 - 1 / 2,
                      if b1 - 1 / 2 \<le> 0 then m1 else m1 - 1 / 2]],
        active_steps = [[?t0, u1]], halt_budget = [[b0 - 1 / 2, b1 - 1 / 2]],
        batch_size = 1\<rparr>"
  have cc: "(call_control a input_example)
               \<lparr>remainder := [[if b0 - 1 / 2 \<le> 0 then r0 else r0 - 1 / 2,
                                if b1 - 1 / 2 \<le> 0 then m1 else m1 - 1 / 2]],
                active_steps := [[?t0, u1]],
                halt_budget := [[b0 - 1 / 2, b1 - 1 / 2]]\<rparr> = ?c'"
    unfolding c by simp
  obtain a' outs where call: "TransformerACT_call a arg = Inr (a', outs)"
    and a': "control a' = Some ?c'" "halting_kernel a' = [[0]]" "halting_biases a' = [0]"
    unfolding call_unfold [OF arg m1 m2] r bud cc using k by simp
  have "call_control a' input_example = ?c'"
    using a'(1) by (simp add: call_control_def control_for_call_def input_example_def)
  with call a'(2,3) show "\<exists>a' outs s0' s1'.
     TransformerACT_call a arg = Inr (a', outs) \<and>
     halting_kernel a' = [[0]] \<and> halting_biases a' = [0] \<and>
     call_control a' input_example =
       \<lparr>zeros_like_halting = [[0, 0]], ones_like_halting = [[1, 1]],
        remainder = [[if b0 - 1 / 2 \<le> 0 then r0 else r0 - 1 / 2,
                      if b1 - 1 / 2 \<le> 0 then m1 else m1 - 1 / 2]],
        active_steps = [[s0', s1']], halt_budget = [[b0 - 1 / 2, b1 - 1 / 2]],
        batch_size = 1\<rparr>"
    by blast
qed

lemma example_trace:
  assumes arg: "act_input arg = Inr (input_example, l)"
    and l: "l = PyNone \<and> m1 = 1 \<or> l = PyTensor (IntMat [[1]]) \<and> m1 = 0"
  shows "ACT_trace (act_example (1 / 100)) [arg, arg] =
     Inr [\<lparr>te_budget = [[99 / 100, 99 / 100]], te_halting = [[1 / 2, 1 / 2]],
           te_weight = [[1 / 2, 1 / 2]]\<rparr>,
          \<lparr>te_budget = [[49 / 100, 49 / 100]], te_halting = [[1 / 2, 1 / 2]],
           te_weight = [[1 / 2, m1 - 1 / 2]]\<rparr>]"
proof -
  let ?a = "act_example (1 / 100)"
  have k: "halting_kernel ?a = [[0]]" "halting_biases ?a = [0]"
    by (simp_all add: act_example_def TransformerACT_init_def)
  have c: "call_control ?a input_example =
     \<lparr>zeros_like_halting = [[0, 0]], ones_like_halting = [[1, 1]], remainder = [[1, 1]],
      active_steps = [[0, 0]], halt_budget = [[99 / 100, 99 / 100]], batch_size = 1\<rparr>"
    using example_control [of "1 / 100"] by simp
  have l1: "l = PyNone \<and> m1 = 1 \<or> l = PyTensor (IntMat [[1]]) \<and> m1 = 0" using l .
  from example_call_step(1) [OF k c arg l1] obtain a1 outs1 s0 s1 where
    call1: "TransformerACT_call ?a arg = Inr (a1, outs1)"
    and k1: "halting_kernel a1 = [[0]]" "halting_biases a1 = [0]"
    and c1: "call_control a1 input_example =
       \<lparr>zeros_like_halting = [[0, 0]], ones_like_halting = [[1, 1]],
        remainder = [[1 / 2, m1 - 1 / 2]],
        active_steps = [[s0, s1]], halt_budget = [[49 / 100, 49 / 100]],
        batch_size = 1\<rparr>"
    by auto
  have e1: "call_entry ?a input_example =
     \<lparr>te_budget = [[99 / 100, 99 / 100]], te_halting = [[1 / 2, 1 / 2]],
      te_weight = [[1 / 2, 1 / 2]]\<rparr>"
    using example_call_step(2) [OF k c arg l1] by simp
  have l2: "l = PyNone \<and> (if l = PyNone then m1 - 1 / 2 else 0) = m1 - 1 / 2 \<or>
            l = PyTensor (IntMat [[1]]) \<and> (if l = PyNone then m1 - 1 / 2 else 0) = 0"
    using l by auto
  from example_call_step(1) [OF k1 c1 arg l2] obtain a2 outs2 where
    call2: "TransformerACT_call a1 arg = Inr (a2, outs2)"
    by auto
  have e2: "call_entry a1 input_example =
     \<lparr>te_budget = [[49 / 100, 49 / 100]], te_halting = [[1 / 2, 1 / 2]],
      te_weight = [[1 / 2, m1 - 1 / 2]]\<rparr>"
    using example_call_step(2) [OF k1 c1 arg l2] by simp
  show ?thesis
    using call1 call2 arg by (simp add: e1 e2)
qed

lemma example_call_arg_ok: "call_arg_ok 1 2 1 call_example"
  using example_shape by (simp add: call_arg_ok_def call_example_def lengths_ok_def)

lemma example_masked_call_arg_ok: "call_arg_ok 1 2 1 masked_call_example"
  using example_shape
  by (simp add: call_arg_ok_def masked_call_example_def lengths_example_def
      lengths_ok_def shape2_def)

text \<open>
  C1, as amended.  Take a fresh instance and call it any number of times on inputs of one
  shape, and a position that is unmasked in every call (no lengths are given, or the
  position lies below its sequence's length).  All the calls succeed, and if at some
  call the position exhausts its halt budget (the budget is positive and the budget minus
  the halting output is at most 0), then the halting probabilities the calls apply at the
  position (the halting output before that call, the remainder at it, 0 after it) add up
  to exactly 1.
\<close>

theorem halting_weights_sum_to_one:
  assumes ok: "act_ok B S D a" and fresh: "control a = None"
    and args: "list_all (\<lambda>arg. call_arg_ok B S D arg \<and> arg_unmasked arg b t) args"
    and b: "b < B" and t: "t < S"
  shows "\<exists>tr. ACT_trace a args = Inr tr \<and> length tr = length args \<and>
           (list_ex (exhausts_at b t) tr \<longrightarrow> weight_sum b t tr = 1)"
proof -
  have "current_remainder a b t = 1" using fresh by (simp add: current_remainder_def)
  with trace_weights [OF ok args b t] show ?thesis by auto
qed

theorem halting_weights_sum_to_one_witness:
  "act_ok 1 2 1 (act_example (1 / 100)) \<and> control (act_example (1 / 100)) = None \<and>
   list_all (\<lambda>arg. call_arg_ok 1 2 1 arg \<and> arg_unmasked arg 0 1) [call_example, call_example] \<and>
   (\<exists>tr. ACT_trace (act_example (1 / 100)) [call_example, call_example] = Inr tr \<and>
      length tr = 2 \<and> list_ex (exhausts_at 0 1) tr \<and> weight_sum 0 1 tr = 1)"
proof -
  have fresh: "control (act_example (1 / 100)) = None"
    by (simp add: act_example_def TransformerACT_init_def)
  have args: "list_all (\<lambda>arg. call_arg_ok 1 2 1 arg \<and> arg_unmasked arg 0 1)
      [call_example, call_example]"
    using example_call_arg_ok
    by (simp add: arg_unmasked_def unmasked_def call_example_def)
  from halting_weights_sum_to_one [OF example_ok fresh args] obtain tr where
    tr: "ACT_trace (act_example (1 / 100)) [call_example, call_example] = Inr tr"
    and len: "length tr = length [call_example, call_example]"
    and sum: "list_ex (exhausts_at 0 1) tr \<longrightarrow> weight_sum 0 1 tr = 1"
    by auto
  have "act_input call_example = Inr (input_example, PyNone)"
    by (simp add: call_example_def)
  from example_trace [OF this, of 1] tr have "list_ex (exhausts_at 0 1) tr"
    by (auto simp: exhausts_at_def)
  with sum tr len example_ok fresh args show ?thesis by auto
qed

text \<open>
  The claim does not hold at every position.  \<open>call\<close> stores the length-masked remainder
  (lines 379 and 386-389), so at a padding position the remainder is \<open>0 - p\<close> after a
  call that does not exhaust the budget, and the call that exhausts it applies this
  negative remainder as its weight.  With lengths \<open>[[1]]\<close> the second position of the
  example gets the weights 1/2 and -1/2: it exhausts its budget at the second call and
  its weights add up to 0.
\<close>

theorem halting_weights_padding_counterexample:
  "act_ok 1 2 1 (act_example (1 / 100)) \<and> control (act_example (1 / 100)) = None \<and>
   list_all (call_arg_ok 1 2 1) [masked_call_example, masked_call_example] \<and>
   (\<exists>tr. ACT_trace (act_example (1 / 100)) [masked_call_example, masked_call_example] = Inr tr \<and>
      list_ex (exhausts_at 0 1) tr \<and> weight_sum 0 1 tr = 0 \<and> weight_sum 0 1 tr \<noteq> 1)"
proof -
  have fresh: "control (act_example (1 / 100)) = None"
    by (simp add: act_example_def TransformerACT_init_def)
  have "act_input masked_call_example = Inr (input_example, PyTensor (IntMat [[1]]))"
    by (simp add: masked_call_example_def lengths_example_def)
  from example_trace [OF this, of 0]
  have "\<exists>tr. ACT_trace (act_example (1 / 100)) [masked_call_example, masked_call_example] = Inr tr \<and>
      list_ex (exhausts_at 0 1) tr \<and> weight_sum 0 1 tr = 0 \<and> weight_sum 0 1 tr \<noteq> 1"
    by (simp add: exhausts_at_def weight_sum_def)
  with example_ok fresh example_masked_call_arg_ok show ?thesis by simp
qed

section \<open>The call arguments of a block\<close>

text \<open>
  C7.  The claim: a block called with anything but a rank-3 tensor or a list of two
  objects raises an invalid-argument error.  The check of \<open>__call__\<close> tests \<open>len(_input) == 3\<close>
  where its comment, and the check of \<open>TransformerACT.call\<close>, test the rank of a tensor: a
  list of three objects is neither a rank-3 tensor nor a pair, \<open>TransformerACT.call\<close>
  refuses it with a \<open>ValueError\<close>, and the block accepts it as its input, with no lengths.
  A rank-3 tensor, in turn, is accepted only when \<open>len\<close> of it is 3.
\<close>

theorem block_accepts_three_element_list:
  "block_input keras (PyList [a, b, c]) = Inr (PyList [a, b, c], PyNone) \<and>
   \<not> is_rank3_tensor (PyList [a, b, c]) \<and> \<not> is_pair (PyList [a, b, c]) \<and>
   act_input (PyList [a, b, c]) = Inl ValueError \<and>
   block_input keras (PyTensor (Cube x)) =
     (case tensor_len keras (Cube x) of
        Inl e \<Rightarrow> Inl e
      | Inr n \<Rightarrow> if n = 3 then Inr (PyTensor (Cube x), PyNone) else Inl ValueError)"
  by (simp add: block_input_def py_len_def is_rank3_tensor_def is_pair_def)

section \<open>The two wirings of a block\<close>

lemma block_wiring_no_dropout:
  "dropout_layer blk = (\<lambda>x. x) \<Longrightarrow>
   block_wiring (blk\<lparr>vanilla_wiring := v\<rparr>) x y = addition_layer blk x y"
  by (simp add: block_wiring_def)

lemma block_call_no_dropout:
  assumes "dropout_layer blk = (\<lambda>x. x)"
  shows "map_sum id snd (TransformerBlock_call keras (blk\<lparr>vanilla_wiring := v\<rparr>) raw_input) =
         map_sum id snd (TransformerBlock_call keras (blk\<lparr>vanilla_wiring := w\<rparr>) raw_input)"
  unfolding TransformerBlock_call_def Let_def block_wiring_no_dropout [OF assms]
  by (simp split: sum.splits prod.splits pyobj.splits tensor.splits option.splits)

text \<open>
  C8.  A block constructed with \<open>residual_dropout = 0\<close> gives, on every input, the same
  result with \<open>vanilla_wiring = True\<close> as with \<open>vanilla_wiring = False\<close>, all other arguments
  and all weights being equal: its dropout layer is the identity, and both wirings add
  the sub-layer's output to its input.
\<close>

theorem wiring_modes_agree_without_dropout:
  "TransformerBlock_run keras nm trans_type 0 act size_mult True raw_input =
   TransformerBlock_run keras nm trans_type 0 act size_mult False raw_input"
proof -
  have run: "TransformerBlock_run keras nm trans_type 0 act size_mult v raw_input =
     (case TransformerBlock_init keras nm trans_type 0 act size_mult v of
        Inl e \<Rightarrow> Inl e
      | Inr blk \<Rightarrow> map_sum id snd (TransformerBlock_call keras blk raw_input))" for v
    by (simp add: TransformerBlock_run_def split: sum.splits)
  consider "trans_type = ''dot''" | "trans_type \<noteq> ''dot''" "trans_type = ''cnn''"
    | "trans_type \<noteq> ''dot''" "trans_type \<noteq> ''cnn''" by blast
  then show ?thesis
  proof cases
    case 1
    let ?blk = "\<lparr>size_multiplier = size_mult, name = nm, activation = act,
                attention_layer = MultiHeadSelfAttention keras,
                norm1_layer = normalization1 keras\<lparr>axis := - 1\<rparr>, dropout_layer = (\<lambda>x. x),
                norm2_layer = normalization2 keras\<lparr>axis := - 1\<rparr>, transition_type = ''dot'',
                transition_layer = Some (DotTransition
                  (case transition_weights keras of (w1, b1, w2, b2) \<Rightarrow>
                     \<lparr>t_activation = activations_get keras act, t_size_multiplier = size_mult,
                      weights1 = w1, biases1 = b1, weights2 = w2, biases2 = b2\<rparr>)),
                addition_layer = K_add3, vanilla_wiring = True\<rparr>"
    have "TransformerBlock_init keras nm trans_type 0 act size_mult v = Inr (?blk\<lparr>vanilla_wiring := v\<rparr>)"
      for v using 1 by (simp add: TransformerBlock_init_def)
    then show ?thesis
      unfolding run using block_call_no_dropout [of ?blk keras True raw_input False] by simp
  next
    case 2
    let ?blk = "\<lparr>size_multiplier = size_mult, name = nm, activation = act,
                attention_layer = MultiHeadSelfAttention keras,
                norm1_layer = normalization1 keras\<lparr>axis := - 1\<rparr>, dropout_layer = (\<lambda>x. x),
                norm2_layer = normalization2 keras\<lparr>axis := - 1\<rparr>, transition_type = ''cnn'',
                transition_layer = None,
                addition_layer = K_add3, vanilla_wiring = True\<rparr>"
    have "TransformerBlock_init keras nm trans_type 0 act size_mult v = Inr (?blk\<lparr>vanilla_wiring := v\<rparr>)"
      for v using 2 by (simp add: TransformerBlock_init_def)
    then show ?thesis
      unfolding run using block_call_no_dropout [of ?blk keras True raw_input False] by simp
  next
    case 3
    then show ?thesis by (simp add: TransformerBlock_run_def TransformerBlock_init_def)
  qed
qed

section \<open>The transition type of a block\<close>

text \<open>
  C9.  Constructing a block with the transition type \<open>dot\<close> or \<open>cnn\<close> succeeds and gives a
  block of that transition type; with any other transition type the constructor raises
  \<open>NotImplementedError\<close>, so no block exists that could be called.
\<close>

theorem transition_type_checked:
  "(trans_type = ''dot'' \<or> trans_type = ''cnn'' \<longrightarrow>
      (\<exists>blk. TransformerBlock_init keras nm trans_type residual_dropout act size_mult vanilla = Inr blk \<and>
             transition_type blk = trans_type)) \<and>
   (trans_type \<noteq> ''dot'' \<and> trans_type \<noteq> ''cnn'' \<longrightarrow>
      TransformerBlock_init keras nm trans_type residual_dropout act size_mult vanilla
        = Inl NotImplementedError)"
  by (simp add: TransformerBlock_init_def Let_def)

theorem transition_type_checked_witness:
  "(\<exists>blk. TransformerBlock_init keras_example ''Transformer'' ''dot'' 0 ''gelu'' 4 False = Inr blk \<and>
          transition_type blk = ''dot'') \<and>
   (\<exists>blk. TransformerBlock_init keras_example ''Transformer'' ''cnn'' 0 ''gelu'' 4 False = Inr blk \<and>
          transition_type blk = ''cnn'') \<and>
   TransformerBlock_init keras_example ''Transformer'' ''rnn'' 0 ''gelu'' 4 False
     = Inl NotImplementedError"
  using transition_type_checked [of "''dot''" keras_example "''Transformer''" 0 "''gelu''" 4 False]
    transition_type_checked [of "''cnn''" keras_example "''Transformer''" 0 "''gelu''" 4 False]
    transition_type_checked [of "''rnn''" keras_example "''Transformer''" 0 "''gelu''" 4 False]
  by simp

section \<open>Layer normalisation of a shifted input\<close>

lemma length_tabulate3 [simp]: "length (tabulate3 x f) = length x"
  by (simp add: tabulate3_def)

lemma length_tabulate3_nth [simp]:
  "b < length x \<Longrightarrow> length (tabulate3 x f ! b) = length (x ! b)"
  by (simp add: tabulate3_def)

lemma length_tabulate3_nth_nth [simp]:
  "b < length x \<Longrightarrow> s < length (x ! b) \<Longrightarrow> length (tabulate3 x f ! b ! s) = length (x ! b ! s)"
  by (simp add: tabulate3_def)

lemma tabulate3_nth [simp]:
  "b < length x \<Longrightarrow> s < length (x ! b) \<Longrightarrow> d < length (x ! b ! s) \<Longrightarrow>
   tabulate3 x f ! b ! s ! d = f b s d"
  by (simp add: tabulate3_def)

lemma tabulate3_cong:
  assumes "\<And>b s d. b < length x \<Longrightarrow> s < length (x ! b) \<Longrightarrow> d < length (x ! b ! s) \<Longrightarrow>
             f b s d = g b s d"
  shows "tabulate3 x f = tabulate3 x g"
  using assms by (simp add: tabulate3_def)

lemma tabulate3_same_shape:
  assumes "length y = length x"
    and "\<And>b. b < length x \<Longrightarrow> length (y ! b) = length (x ! b)"
    and "\<And>b s. b < length x \<Longrightarrow> s < length (x ! b) \<Longrightarrow> length (y ! b ! s) = length (x ! b ! s)"
  shows "tabulate3 y f = tabulate3 x f"
  using assms by (simp add: tabulate3_def)

lemma tabulate3_tabulate3 [simp]: "tabulate3 (tabulate3 x h) f = tabulate3 x f"
  by (rule tabulate3_same_shape) simp_all

lemma map2_upt:
  "map2 g xs (map f [0..<length xs]) = map (\<lambda>i. g (xs ! i) (f i)) [0..<length xs]"
  by (rule nth_equalityI) simp_all

lemma ew3_tabulate3:
  "ew3 g x (tabulate3 x f) = tabulate3 x (\<lambda>b s d. g (x ! b ! s ! d) (f b s d))"
  unfolding ew3_def ew2_def tabulate3_def
  by (simp add: map2_upt)

lemma map_by_index: "map f xs = map (\<lambda>i. f (xs ! i)) [0..<length xs]"
  by (rule nth_equalityI) simp_all

lemma shape3_lengths:
  assumes "shape3 B S D x"
  shows "length x = B"
    and "b < B \<Longrightarrow> length (x ! b) = S"
    and "b < B \<Longrightarrow> s < S \<Longrightarrow> length (x ! b ! s) = D"
  using assms by (simp_all add: shape3_def shape2_def list_all_length)

lemma lane_shift_along:
  assumes x: "shape3 B S D x" and b: "b < B" and s: "s < S" and d: "d < D"
  shows "lane ax (shift_along ax c x) b s d =
           map (\<lambda>v. v + (if ax = 0 then c s d else if ax = 1 then c b d else c b s)) (lane ax x b s d)"
proof -
  note L = shape3_lengths [OF x]
  consider "ax = 0" | "ax = 1" | "ax \<noteq> 0" "ax \<noteq> 1" by blast
  then show ?thesis
  proof cases
    case 1
    have "map (\<lambda>m. m ! s ! d) (shift_along ax c x) =
          map (\<lambda>i. shift_along ax c x ! i ! s ! d) [0..<B]"
      using map_by_index [of "\<lambda>m. m ! s ! d" "shift_along ax c x"] L(1)
      by (simp add: shift_along_def)
    also have "\<dots> = map (\<lambda>i. x ! i ! s ! d + c s d) [0..<B]"
      using L s d 1 by (simp add: shift_along_def)
    also have "\<dots> = map (\<lambda>v. v + c s d) (map (\<lambda>m. m ! s ! d) x)"
      using map_by_index [of "\<lambda>m. m ! s ! d" x] L(1) by simp
    finally show ?thesis using 1 by (simp add: lane_def)
  next
    case 2
    have "map (\<lambda>v. v ! d) (shift_along ax c x ! b) =
          map (\<lambda>i. shift_along ax c x ! b ! i ! d) [0..<S]"
      using map_by_index [of "\<lambda>v. v ! d" "shift_along ax c x ! b"] L b
      by (simp add: shift_along_def)
    also have "\<dots> = map (\<lambda>i. x ! b ! i ! d + c b d) [0..<S]"
      using L b d 2 by (simp add: shift_along_def)
    also have "\<dots> = map (\<lambda>v. v + c b d) (map (\<lambda>v. v ! d) (x ! b))"
      using map_by_index [of "\<lambda>v. v ! d" "x ! b"] L b by simp
    finally show ?thesis using 2 by (simp add: lane_def)
  next
    case 3
    have "shift_along ax c x ! b ! s = map (\<lambda>i. x ! b ! s ! i + c b s) [0..<D]"
      using L b s 3 by (simp add: shift_along_def tabulate3_def)
    also have "\<dots> = map (\<lambda>v. v + c b s) (x ! b ! s)"
      using map_by_index [of "\<lambda>v. v + c b s" "x ! b ! s"] L b s by simp
    finally show ?thesis using 3 by (simp add: lane_def)
  qed
qed

lemma lane_nonempty:
  assumes x: "shape3 B S D x" and b: "b < B" and s: "s < S" and d: "d < D"
  shows "0 < length (lane ax x b s d)"
proof -
  note L = shape3_lengths [OF x]
  have "0 < length x" "0 < length (x ! b)" "0 < length (x ! b ! s)"
    using L(1) L(2) [OF b] L(3) [OF b s] b s d by simp_all
  then show ?thesis by (simp add: lane_def)
qed

lemma sum_list_shift: "sum_list (map (\<lambda>v. v + k) l) = sum_list l + real (length l) * (k::real)"
  by (induction l) (simp_all add: algebra_simps)

lemma mean_shift:
  "0 < length l \<Longrightarrow>
   sum_list (map (\<lambda>v. v + k) l) / real (length (map (\<lambda>v. v + k) l)) =
   sum_list l / real (length l) + (k::real)"
  by (simp add: sum_list_shift field_simps)

lemma centered_shift:
  assumes x: "shape3 B S D x"
  shows "ew3 (-) (shift_along ax c x) (K_mean_keepdims ax (shift_along ax c x)) =
         ew3 (-) x (K_mean_keepdims ax x)"
proof -
  note L = shape3_lengths [OF x]
  let ?x' = "shift_along ax c x"
  let ?mean = "\<lambda>y b s d. sum_list (lane ax y b s d) / real (length (lane ax y b s d))"
  let ?k = "\<lambda>b s d. if ax = 0 then c s d else if ax = 1 then c b d else c b s"
  have "ew3 (-) ?x' (K_mean_keepdims ax ?x') =
        tabulate3 ?x' (\<lambda>b s d. ?x' ! b ! s ! d - ?mean ?x' b s d)"
    unfolding K_mean_keepdims_def by (rule ew3_tabulate3)
  also have "\<dots> = tabulate3 x (\<lambda>b s d. ?x' ! b ! s ! d - ?mean ?x' b s d)"
    by (simp add: shift_along_def)
  also have "\<dots> = tabulate3 x (\<lambda>b s d. x ! b ! s ! d - ?mean x b s d)"
  proof (rule tabulate3_cong)
    fix b s d assume "b < length x" "s < length (x ! b)" "d < length (x ! b ! s)"
    then have b: "b < B" and s: "s < S" and d: "d < D" using L by simp_all
    have v: "?x' ! b ! s ! d = x ! b ! s ! d + ?k b s d"
      using L b s d by (simp add: shift_along_def)
    have "?mean ?x' b s d = ?mean x b s d + ?k b s d"
      unfolding lane_shift_along [OF x b s d]
      using lane_nonempty [OF x b s d] by (rule mean_shift)
    with v show "?x' ! b ! s ! d - ?mean ?x' b s d = x ! b ! s ! d - ?mean x b s d"
      by simp
  qed
  also have "\<dots> = ew3 (-) x (K_mean_keepdims ax x)"
    unfolding K_mean_keepdims_def by (rule ew3_tabulate3 [symmetric])
  finally show ?thesis .
qed

text \<open>
  C10.  For every rank-3 input, every gain and bias and every axis the layer accepts,
  adding to the input a constant along the normalised axis (one constant per lane, the
  same for all positions of the lane) leaves the output of \<open>LayerNormalization\<close> exactly
  unchanged: the mean of each lane moves by the constant, so the centred input, the
  variance and the rescaled result are the same.
\<close>

theorem layer_normalization_shift_invariant:
  assumes ax: "normalize_axis (axis layer) = Inr ax" and x: "shape3 B S D x"
  shows "\<exists>y. LayerNormalization_call layer x = Inr y \<and>
             LayerNormalization_call layer (shift_along ax c x) = Inr y"
proof -
  have "ew3 (-) (shift_along ax c x) (K_mean_keepdims ax (shift_along ax c x)) =
         ew3 (-) x (K_mean_keepdims ax x)"
    using x by (rule centered_shift)
  then show ?thesis
    by (simp add: LayerNormalization_call_def Let_def ax)
qed

theorem layer_normalization_shift_invariant_witness:
  "normalize_axis (axis (norm_example (- 1))) = Inr 2 \<and> shape3 1 1 2 [[[1::real, 3]]] \<and>
   shift_along 2 (\<lambda>b s. 5) [[[1, 3]]] = [[[6, 8]]] \<and>
   (\<exists>y. LayerNormalization_call (norm_example (- 1)) [[[1, 3]]] = Inr y \<and>
        LayerNormalization_call (norm_example (- 1)) [[[6, 8]]] = Inr y) \<and>
   normalize_axis (axis (norm_example 1)) = Inr 1 \<and> shape3 1 2 1 [[[1::real], [3]]] \<and>
   shift_along 1 (\<lambda>b d. 5) [[[1], [3]]] = [[[6], [8]]] \<and>
   (\<exists>y. LayerNormalization_call (norm_example 1) [[[1], [3]]] = Inr y \<and>
        LayerNormalization_call (norm_example 1) [[[6], [8]]] = Inr y)"
proof -
  have a2: "normalize_axis (axis (norm_example (- 1))) = Inr 2"
    by (simp add: norm_example_def normalize_axis_def)
  have x2: "shape3 1 1 2 [[[1::real, 3]]]" by (simp add: shape3_def shape2_def)
  have s2: "shift_along 2 (\<lambda>b s. 5) [[[1, 3]]] = [[[6, 8]]]"
    by (simp add: shift_along_def tabulate3_def upt_rec)
  have a1: "normalize_axis (axis (norm_example 1)) = Inr 1"
    by (simp add: norm_example_def normalize_axis_def)
  have x1: "shape3 1 2 1 [[[1::real], [3]]]" by (simp add: shape3_def shape2_def)
  have s1: "shift_along 1 (\<lambda>b d. 5) [[[1], [3]]] = [[[6], [8]]]"
    by (simp add: shift_along_def tabulate3_def upt_rec)
  from layer_normalization_shift_invariant [OF a2 x2, of "\<lambda>b s. 5"]
    layer_normalization_shift_invariant [OF a1 x1, of "\<lambda>b d. 5"]
  show ?thesis using a2 x2 s2 a1 x1 s1 by simp
qed

section \<open>Calls on any state\<close>








section \<open>The effective halting weight\<close>



section \<open>Initialisation of the control tensors\<close>











end
